theory Spec2Isabelle
  imports Complex_Main "HOL-Library.AList"
begin

section \<open>BGAW: GitHub workflow events aggregated into one Discord message per commit\<close>

text \<open>
  The development embeds \<^verbatim>\<open>src/main.py\<close>: the class \<^verbatim>\<open>WorkflowEmbed\<close>, the module-level
  \<^verbatim>\<open>cache\<close> and the request handler \<^verbatim>\<open>receive_event\<close>.

  Conventions of the embedding.
  \<^item> A Python \<^verbatim>\<open>str\<close> is a \<open>string\<close> holding its UTF-8 bytes; concatenation and
    \<^verbatim>\<open>join\<close> commute with the encoding.
  \<^item> The JSON payload is a record per object the handler reads. Every key the code
    subscripts is an \<open>option\<close> field: \<open>None\<close> is a missing key, which raises
    \<^verbatim>\<open>KeyError\<close> when subscripted. Values have the types the code annotates
    (\<^verbatim>\<open>workflows: Dict[int, Dict[str, str]]\<close>) and GitHub's schema gives: strings for
    names, links and the commit SHA, an integer for \<^verbatim>\<open>run_id\<close>, and a nullable string for
    \<^verbatim>\<open>conclusion\<close> (GitHub sends \<^verbatim>\<open>null\<close> while a job is queued or running).
  \<^item> An exception is a value of \<open>error\<close>. A handler that mutates its object before it
    raises returns the mutated object together with the error: Python does not roll back.
  \<^item> Time is the reading of the cache's monotonic timer, a \<open>real\<close> number of seconds.
  \<^item> One request is handled at a time. Each request makes at most one call to Discord
    (a send or an edit); its outcome is an input of the handler, and the calls attempted
    are returned as a list of \<open>action\<close>s.
\<close>

subsection \<open>Errors\<close>

datatype error =
    KeyError string
  | AttributeError string
  | DeliveryError

definition getitem :: "string \<Rightarrow> 'a option \<Rightarrow> error + 'a" where
  "getitem k field = (case field of None \<Rightarrow> Inl (KeyError k) | Some v \<Rightarrow> Inr v)"

subsection \<open>The payload\<close>

record repository =
  repo_name :: "string option"
  repo_html_url :: "string option"

record actor =
  actor_login :: "string option"
  actor_html_url :: "string option"
  actor_avatar_url :: "string option"

record pull_request =
  pr_id :: "int option"

record workflow_job =
  wj_head_sha :: "string option"
  wj_conclusion :: "string option option"
  wj_status :: "string option"
  wj_run_id :: "int option"
  wj_workflow_name :: "string option"

record workflow_run =
  wr_head_sha :: "string option"
  wr_event :: "string option"
  wr_triggering_actor :: "actor option"
  wr_pull_requests :: "pull_request list option"

record check_run =
  cr_head_sha :: "string option"

record payload =
  p_repository :: "repository option"
  p_workflow_job :: "workflow_job option"
  p_workflow_run :: "workflow_run option"
  p_check_run :: "check_run option"

text \<open>\<^verbatim>\<open>payload['repository']['name']\<close> and \<^verbatim>\<open>payload['repository']['html_url']\<close>.\<close>

definition repository_name :: "payload \<Rightarrow> error + string" where
  "repository_name p =
     (case getitem ''repository'' (p_repository p) of
        Inl e \<Rightarrow> Inl e
      | Inr r \<Rightarrow> getitem ''name'' (repo_name r))"

definition repository_html_url :: "payload \<Rightarrow> error + string" where
  "repository_html_url p =
     (case getitem ''repository'' (p_repository p) of
        Inl e \<Rightarrow> Inl e
      | Inr r \<Rightarrow> getitem ''html_url'' (repo_html_url r))"

text \<open>
  \<^verbatim>\<open>payload[event]['head_sha']\<close>, for the three event names that pass the guard of
  \<^verbatim>\<open>receive_event\<close>; no other name reaches a subscript.
\<close>

definition head_sha :: "payload \<Rightarrow> string \<Rightarrow> error + string" where
  "head_sha p event =
     (if event = ''workflow_job'' then
        (case getitem ''workflow_job'' (p_workflow_job p) of
           Inl e \<Rightarrow> Inl e | Inr j \<Rightarrow> getitem ''head_sha'' (wj_head_sha j))
      else if event = ''check_run'' then
        (case getitem ''check_run'' (p_check_run p) of
           Inl e \<Rightarrow> Inl e | Inr c \<Rightarrow> getitem ''head_sha'' (cr_head_sha c))
      else if event = ''workflow_run'' then
        (case getitem ''workflow_run'' (p_workflow_run p) of
           Inl e \<Rightarrow> Inl e | Inr r \<Rightarrow> getitem ''head_sha'' (wr_head_sha r))
      else Inl (KeyError event))"

subsection \<open>The embed and the aggregate\<close>

record embed_author =
  author_name :: string
  author_url :: "string option"
  author_icon_url :: "string option"

record Embed =
  embed_color :: int
  embed_title :: "string option"
  embed_url :: "string option"
  embed_description :: "string option"
  embed_author :: "embed_author option"

definition og_blurple :: int where
  "og_blurple = 0x7289DA"

text \<open>\<^verbatim>\<open>discord.Embed(color=discord.Color.og_blurple())\<close>: every other field unset.\<close>

definition new_Embed :: Embed where
  "new_Embed =
     \<lparr>embed_color = og_blurple, embed_title = None, embed_url = None,
      embed_description = None, embed_author = None\<rparr>"

text \<open>\<^verbatim>\<open>Embed.set_author(name=, url=, icon_url=None)\<close>.\<close>

definition set_author :: "Embed \<Rightarrow> string \<Rightarrow> string option \<Rightarrow> string option \<Rightarrow> Embed" where
  "set_author e n u i =
     e\<lparr>embed_author := Some \<lparr>author_name = n, author_url = u, author_icon_url = i\<rparr>\<rparr>"

record job_entry =
  job_color :: string
  job_name :: string

text \<open>
  \<^verbatim>\<open>self.workflows\<close> is a Python dict: an association list in insertion order with distinct
  keys. \<^verbatim>\<open>d[k] = v\<close> is \<open>AList.update k v d\<close>: an existing key keeps its place, a new one
  goes last. \<^verbatim>\<open>self.message\<close> is the handle of the message sent, \<open>None\<close> before.
\<close>

record WorkflowEmbed =
  we_embed :: Embed
  we_workflows :: "(int \<times> job_entry) list"
  we_message :: "nat option"

datatype action =
    Send int string Embed "int option"
  | Edit nat Embed

datatype delivery = Delivered nat | Failed

subsection \<open>Status markers\<close>

definition LARGE_RED_CIRCLE :: string where
  "LARGE_RED_CIRCLE = [CHR 0xF0, CHR 0x9F, CHR 0x94, CHR 0xB4]"

definition LARGE_GREEN_CIRCLE :: string where
  "LARGE_GREEN_CIRCLE = [CHR 0xF0, CHR 0x9F, CHR 0x9F, CHR 0xA2]"

definition LARGE_YELLOW_CIRCLE :: string where
  "LARGE_YELLOW_CIRCLE = [CHR 0xF0, CHR 0x9F, CHR 0x9F, CHR 0xA1]"

definition WindowsLoading :: string where
  "WindowsLoading = ''<a:WindowsLoading:883414701218873376>''"

definition BLACK_QUESTION_MARK_ORNAMENT :: string where
  "BLACK_QUESTION_MARK_ORNAMENT = [CHR 0xE2, CHR 0x9D, CHR 0x93]"

text \<open>
  \<^verbatim>\<open>determine_color(self, payload)\<close>, called on \<^verbatim>\<open>payload['workflow_job']\<close>.
  \<^verbatim>\<open>payload['status']\<close> is read only when the conclusion is neither \<^verbatim>\<open>"failure"\<close> nor
  \<^verbatim>\<open>"success"\<close>.
\<close>

definition determine_color :: "workflow_job \<Rightarrow> error + string" where
  "determine_color j =
     (case getitem ''conclusion'' (wj_conclusion j) of
        Inl e \<Rightarrow> Inl e
      | Inr c \<Rightarrow>
          if c = Some ''failure'' then Inr LARGE_RED_CIRCLE
          else if c = Some ''success'' then Inr LARGE_GREEN_CIRCLE
          else
            (case getitem ''status'' (wj_status j) of
               Inl e \<Rightarrow> Inl e
             | Inr s \<Rightarrow>
                 if s = ''queued'' then Inr LARGE_YELLOW_CIRCLE
                 else if s = ''in_progress'' then Inr WindowsLoading
                 else Inr BLACK_QUESTION_MARK_ORNAMENT))"

subsection \<open>WorkflowEmbed\<close>

text \<open>\<^verbatim>\<open>sep.join(xs)\<close>.\<close>

fun join :: "string \<Rightarrow> string list \<Rightarrow> string" where
  "join sep [] = []"
| "join sep [x] = x"
| "join sep (x # y # ys) = x @ sep @ join sep (y # ys)"

definition create_description :: "WorkflowEmbed \<Rightarrow> string" where
  "create_description self =
     join [CHR 0x0A] (map (\<lambda>(k, v). job_color v @ '' '' @ job_name v) (we_workflows self))"

text \<open>
  \<^verbatim>\<open>create_embed(self, payload, event_name)\<close>: the title is set before the link is built,
  so a \<^verbatim>\<open>KeyError\<close> in the link leaves the title set; the only caller is the constructor,
  whose object is dropped when it raises.
\<close>

definition create_embed :: "WorkflowEmbed \<Rightarrow> payload \<Rightarrow> string \<Rightarrow> error + WorkflowEmbed" where
  "create_embed self p event_name =
     (case repository_name p of
        Inl e \<Rightarrow> Inl e
      | Inr n \<Rightarrow>
          (let self1 = self\<lparr>we_embed := (we_embed self)\<lparr>embed_title := Some (''['' @ n @ ''] Workflows'')\<rparr>\<rparr>
           in case repository_html_url p of
                Inl e \<Rightarrow> Inl e
              | Inr u \<Rightarrow>
                  (case head_sha p event_name of
                     Inl e \<Rightarrow> Inl e
                   | Inr sha \<Rightarrow>
                       Inr (self1\<lparr>we_embed := (we_embed self1)\<lparr>embed_url := Some (u @ ''/commit/'' @ sha)\<rparr>\<rparr>))))"

text \<open>\<^verbatim>\<open>WorkflowEmbed.__init__(self, event_name, payload)\<close>.\<close>

definition new_WorkflowEmbed :: "string \<Rightarrow> payload \<Rightarrow> error + WorkflowEmbed" where
  "new_WorkflowEmbed event_name p =
     create_embed \<lparr>we_embed = new_Embed, we_workflows = [], we_message = None\<rparr> p event_name"

text \<open>
  \<^verbatim>\<open>await self.message.edit(embed=self.embed)\<close> under the lock: \<^verbatim>\<open>None\<close> has no attribute
  \<^verbatim>\<open>edit\<close>; otherwise the edit is attempted and fails when Discord refuses it.
\<close>

definition message_edit :: "WorkflowEmbed \<Rightarrow> delivery \<Rightarrow> error option \<times> action list" where
  "message_edit self d =
     (case we_message self of
        None \<Rightarrow> (Some (AttributeError ''edit''), [])
      | Some m \<Rightarrow>
          (case d of
             Failed \<Rightarrow> (Some DeliveryError, [Edit m (we_embed self)])
           | Delivered _ \<Rightarrow> (None, [Edit m (we_embed self)])))"

text \<open>
  \<^verbatim>\<open>handle_workflow_job(self, payload)\<close>. In the assignment to \<^verbatim>\<open>self.workflows[...]\<close> the
  right-hand side (with \<^verbatim>\<open>workflow_name\<close>) is evaluated before the key \<^verbatim>\<open>run_id\<close>.
\<close>

definition handle_workflow_job ::
  "WorkflowEmbed \<Rightarrow> payload \<Rightarrow> delivery \<Rightarrow> error option \<times> WorkflowEmbed \<times> action list" where
  "handle_workflow_job self p d =
     (case getitem ''workflow_job'' (p_workflow_job p) of
        Inl e \<Rightarrow> (Some e, self, [])
      | Inr j \<Rightarrow>
     (case determine_color j of
        Inl e \<Rightarrow> (Some e, self, [])
      | Inr color \<Rightarrow>
     (case getitem ''workflow_name'' (wj_workflow_name j) of
        Inl e \<Rightarrow> (Some e, self, [])
      | Inr n \<Rightarrow>
     (case getitem ''run_id'' (wj_run_id j) of
        Inl e \<Rightarrow> (Some e, self, [])
      | Inr rid \<Rightarrow>
          (let self1 = self\<lparr>we_workflows :=
                 AList.update rid \<lparr>job_color = color, job_name = n\<rparr> (we_workflows self)\<rparr>;
               self2 = self1\<lparr>we_embed :=
                 (we_embed self1)\<lparr>embed_description := Some (create_description self1)\<rparr>\<rparr>;
               (err, acts) = message_edit self2 d
           in (err, self2, acts))))))"

text \<open>\<^verbatim>\<open>str(n)\<close> for an integer: decimal digits, with a minus sign when negative.\<close>

function str_nat :: "nat \<Rightarrow> string" where
  "str_nat n =
     (if n < 10 then [char_of (48 + n)]
      else str_nat (n div 10) @ [char_of (48 + n mod 10)])"
  by pat_completeness auto
termination
  by (relation "measure id") auto

definition str_int :: "int \<Rightarrow> string" where
  "str_int i = (if i < 0 then ''-'' @ str_nat (nat (- i)) else str_nat (nat i))"

text \<open>
  The body of \<^verbatim>\<open>if payload['workflow_run']['event'] == "workflow_dispatch":\<close>. The title
  is assigned before the arguments of \<^verbatim>\<open>set_author\<close> are evaluated.
\<close>

definition workflow_dispatch_branch ::
  "WorkflowEmbed \<Rightarrow> payload \<Rightarrow> workflow_run \<Rightarrow> error option \<times> WorkflowEmbed" where
  "workflow_dispatch_branch self p r =
     (case repository_name p of
        Inl e \<Rightarrow> (Some e, self)
      | Inr n \<Rightarrow>
     (let self1 = self\<lparr>we_embed :=
            (we_embed self)\<lparr>embed_title := Some (''['' @ n @ ''] Manually Triggered Workflow'')\<rparr>\<rparr>
      in
     (case getitem ''triggering_actor'' (wr_triggering_actor r) of
        Inl e \<Rightarrow> (Some e, self1)
      | Inr a \<Rightarrow>
     (case getitem ''login'' (actor_login a) of
        Inl e \<Rightarrow> (Some e, self1)
      | Inr l \<Rightarrow>
     (case getitem ''html_url'' (actor_html_url a) of
        Inl e \<Rightarrow> (Some e, self1)
      | Inr u \<Rightarrow>
          (None, self1\<lparr>we_embed := set_author (we_embed self1) l (Some u) None\<rparr>))))))"

text \<open>
  The body of \<^verbatim>\<open>if payload['workflow_run']['event'] == "pull_request":\<close>. A non-empty
  \<^verbatim>\<open>pull_requests\<close> list is truthy; \<^verbatim>\<open>.get("avatar_url", None)\<close> does not raise.
\<close>

definition pull_request_branch ::
  "WorkflowEmbed \<Rightarrow> payload \<Rightarrow> workflow_run \<Rightarrow> error option \<times> WorkflowEmbed" where
  "pull_request_branch self p r =
     (case getitem ''pull_requests'' (wr_pull_requests r) of
        Inl e \<Rightarrow> (Some e, self)
      | Inr prs \<Rightarrow>
     (let (err1, self1) =
            (case prs of
               [] \<Rightarrow> (None, self)
             | pr # _ \<Rightarrow>
                 (case repository_html_url p of
                    Inl e \<Rightarrow> (Some e, self)
                  | Inr u \<Rightarrow>
                      (case getitem ''id'' (pr_id pr) of
                         Inl e \<Rightarrow> (Some e, self)
                       | Inr i \<Rightarrow>
                           (None, self\<lparr>we_embed :=
                              (we_embed self)\<lparr>embed_url := Some (u @ ''/pulls/'' @ str_int i)\<rparr>\<rparr>))))
      in
     (case err1 of
        Some e \<Rightarrow> (Some e, self1)
      | None \<Rightarrow>
     (case repository_name p of
        Inl e \<Rightarrow> (Some e, self1)
      | Inr n \<Rightarrow>
     (let self2 = self1\<lparr>we_embed :=
            (we_embed self1)\<lparr>embed_title := Some (''['' @ n @ ''] Pull Request Workflows'')\<rparr>\<rparr>
      in
     (case getitem ''triggering_actor'' (wr_triggering_actor r) of
        Inl e \<Rightarrow> (Some e, self2)
      | Inr a \<Rightarrow>
     (case getitem ''login'' (actor_login a) of
        Inl e \<Rightarrow> (Some e, self2)
      | Inr l \<Rightarrow>
     (case getitem ''html_url'' (actor_html_url a) of
        Inl e \<Rightarrow> (Some e, self2)
      | Inr u \<Rightarrow>
          (None, self2\<lparr>we_embed :=
             set_author (we_embed self2) l (Some u) (actor_avatar_url a)\<rparr>)))))))))"

text \<open>
  \<^verbatim>\<open>handle_workflow_run(self, payload)\<close>: two independent \<^verbatim>\<open>if\<close>s on the trigger, then an
  edit guarded by \<^verbatim>\<open>if self.message:\<close>.
\<close>

definition handle_workflow_run ::
  "WorkflowEmbed \<Rightarrow> payload \<Rightarrow> delivery \<Rightarrow> error option \<times> WorkflowEmbed \<times> action list" where
  "handle_workflow_run self p d =
     (case getitem ''workflow_run'' (p_workflow_run p) of
        Inl e \<Rightarrow> (Some e, self, [])
      | Inr r \<Rightarrow>
     (case getitem ''event'' (wr_event r) of
        Inl e \<Rightarrow> (Some e, self, [])
      | Inr ev \<Rightarrow>
     (let (err1, self1) =
            (if ev = ''workflow_dispatch'' then workflow_dispatch_branch self p r
             else (None, self))
      in
     (case err1 of
        Some e \<Rightarrow> (Some e, self1, [])
      | None \<Rightarrow>
     (let (err2, self2) =
            (if ev = ''pull_request'' then pull_request_branch self1 p r
             else (None, self1))
      in
     (case err2 of
        Some e \<Rightarrow> (Some e, self2, [])
      | None \<Rightarrow>
          (if we_message self2 \<noteq> None then
             (let (err, acts) = message_edit self2 d in (err, self2, acts))
           else (None, self2, []))))))))"

text \<open>\<^verbatim>\<open>handle_check_run\<close> and \<^verbatim>\<open>handle_check_suite\<close>: the body is \<^verbatim>\<open>...\<close>.\<close>

definition handle_check_run ::
  "WorkflowEmbed \<Rightarrow> payload \<Rightarrow> error option \<times> WorkflowEmbed \<times> action list" where
  "handle_check_run self p = (None, self, [])"

definition handle_check_suite ::
  "WorkflowEmbed \<Rightarrow> payload \<Rightarrow> error option \<times> WorkflowEmbed \<times> action list" where
  "handle_check_suite self p = (None, self, [])"

subsection \<open>The expiring store\<close>

text \<open>
  Modelled from the spec: \<^verbatim>\<open>cachetools.TTLCache\<close>, the class of the module-level
  \<^verbatim>\<open>cache\<close>, is a library outside the repository's source. The store is bounded in
  capacity and in time: the time-to-live of an entry is measured from its insertion, not
  from its last access; when capacity is exceeded the least recently inserted entry is
  evicted whatever is left of its time-to-live; an expired key is treated as an absent
  key. Expired entries are removed when an entry is inserted. The two parameters are those
  of line 23 of the source, \<^verbatim>\<open>TTLCache(maxsize=100, ttl=10 * 60)\<close>.

  The store is the list of its entries, oldest insertion first: key, expiry time, object.
\<close>

type_synonym cache = "(string \<times> real \<times> WorkflowEmbed) list"

definition maxsize :: nat where
  "maxsize = 100"

definition ttl :: real where
  "ttl = 10 * 60"

definition cache_get :: "cache \<Rightarrow> real \<Rightarrow> string \<Rightarrow> WorkflowEmbed option" where
  "cache_get c now k =
     (case map_of c k of
        None \<Rightarrow> None
      | Some (expires, obj) \<Rightarrow> if now < expires then Some obj else None)"

definition cache_expire :: "cache \<Rightarrow> real \<Rightarrow> cache" where
  "cache_expire c now = filter (\<lambda>(k, expires, obj). now < expires) c"

definition cache_set :: "cache \<Rightarrow> real \<Rightarrow> string \<Rightarrow> WorkflowEmbed \<Rightarrow> cache" where
  "cache_set c now k v =
     (let c1 = cache_expire c now;
          c2 = (if k \<in> fst ` set c1 then filter (\<lambda>e. fst e \<noteq> k) c1
                else drop (Suc (length c1) - maxsize) c1)
      in c2 @ [(k, now + ttl, v)])"

text \<open>
  The store holds references: a mutation of an object fetched from it is seen through the
  store. \<open>cache_store\<close> writes the mutated object back into the entry that the lookup
  of the key finds, expiry time and position unchanged.
\<close>

fun cache_store :: "cache \<Rightarrow> string \<Rightarrow> WorkflowEmbed \<Rightarrow> cache" where
  "cache_store [] k v = []"
| "cache_store ((k', expires, obj) # rest) k v =
     (if k' = k then (k', expires, v) # rest else (k', expires, obj) # cache_store rest k v)"

subsection \<open>The request handler\<close>

record request =
  req_payload :: payload
  req_webhook_id :: int
  req_webhook_token :: string
  req_event_header :: "string option"
  req_thread_id :: "int option"

text \<open>
  \<^verbatim>\<open>if thread_id: params['thread'] = discord.Object(thread_id)\<close>: neither \<^verbatim>\<open>None\<close> nor
  \<^verbatim>\<open>0\<close> is truthy.
\<close>

definition thread_param :: "int option \<Rightarrow> int option" where
  "thread_param t = (case t of None \<Rightarrow> None | Some i \<Rightarrow> if i = 0 then None else Some i)"

text \<open>
  \<^verbatim>\<open>receive_event\<close>, on the store \<open>c\<close> at time \<open>now\<close>, where \<open>d\<close> is the outcome of the
  call to Discord this request makes, if it makes one. The result is the exception that
  escapes the handler (if any), the store afterwards, and the calls attempted.

  Lines 105 to 120 are the branch of a key (the source's \<^verbatim>\<open>id\<close>) without a live entry: the object is stored
  (line 111) before the message is sent, and \<^verbatim>\<open>cache[id].message = await webhook.send(...)\<close>
  evaluates the send first and subscripts the store after. Lines 121 to 127 are the branch
  of a live entry.
\<close>

definition receive_event ::
  "cache \<Rightarrow> real \<Rightarrow> delivery \<Rightarrow> request \<Rightarrow> error option \<times> cache \<times> action list" where
  "receive_event c now d req =
     (case getitem ''X-GitHub-Event'' (req_event_header req) of
        Inl e \<Rightarrow> (Some e, c, [])
      | Inr event \<Rightarrow>
     (if event \<notin> {''workflow_job'', ''check_run'', ''workflow_run''} then (None, c, [])
      else
     (case head_sha (req_payload req) event of
        Inl e \<Rightarrow> (Some e, c, [])
      | Inr key \<Rightarrow>
     (case cache_get c now key of
        None \<Rightarrow>
          (case new_WorkflowEmbed event (req_payload req) of
             Inl e \<Rightarrow> (Some e, c, [])
           | Inr obj0 \<Rightarrow>
          (let (err1, obj, acts1) =
                 (if event = ''workflow_run'' then handle_workflow_run obj0 (req_payload req) d
                  else (None, obj0, []))
           in
          (case err1 of
             Some e \<Rightarrow> (Some e, c, acts1)
           | None \<Rightarrow>
          (let c1 = cache_set c now key obj;
               send = Send (req_webhook_id req) (req_webhook_token req) (we_embed obj)
                        (thread_param (req_thread_id req))
           in
          (case d of
             Failed \<Rightarrow> (Some DeliveryError, c1, acts1 @ [send])
           | Delivered m \<Rightarrow>
               (case cache_get c1 now key of
                  None \<Rightarrow> (Some (KeyError key), c1, acts1 @ [send])
                | Some stored \<Rightarrow>
                    (None, cache_store c1 key (stored\<lparr>we_message := Some m\<rparr>), acts1 @ [send])))))))
      | Some obj \<Rightarrow>
          (let (err1, obj1, acts1) =
                 (if event = ''check_run'' then handle_check_run obj (req_payload req)
                  else (None, obj, []))
           in
          (case err1 of
             Some e \<Rightarrow> (Some e, cache_store c key obj1, acts1)
           | None \<Rightarrow>
          (let (err2, obj2, acts2) =
                 (if event = ''workflow_job'' then handle_workflow_job obj1 (req_payload req) d
                  else (None, obj1, []))
           in (err2, cache_store c key obj2, acts1 @ acts2))))))))"

text \<open>A run of requests, each with its arrival time and the outcome of its call to Discord.\<close>

fun receive_events ::
  "cache \<Rightarrow> (real \<times> delivery \<times> request) list \<Rightarrow> cache \<times> (error option \<times> action list) list" where
  "receive_events c [] = (c, [])"
| "receive_events c ((now, d, req) # rest) =
     (case receive_event c now d req of
        (err, c1, acts) \<Rightarrow>
          (case receive_events c1 rest of (c2, out) \<Rightarrow> (c2, (err, acts) # out)))"

subsection \<open>Job updates seen from outside\<close>

text \<open>
  The entry a \<^verbatim>\<open>workflow_job\<close> payload reports: its \<^verbatim>\<open>run_id\<close> with the marker of
  \<open>determine_color\<close> and its \<^verbatim>\<open>workflow_name\<close>; \<open>None\<close> when a key that
  \<open>handle_workflow_job\<close> subscripts is missing.
\<close>

definition job_update :: "payload \<Rightarrow> (int \<times> job_entry) option" where
  "job_update p =
     (case p_workflow_job p of
        None \<Rightarrow> None
      | Some j \<Rightarrow>
     (case determine_color j of
        Inl e \<Rightarrow> None
      | Inr color \<Rightarrow>
     (case wj_workflow_name j of
        None \<Rightarrow> None
      | Some n \<Rightarrow>
     (case wj_run_id j of
        None \<Rightarrow> None
      | Some rid \<Rightarrow> Some (rid, \<lparr>job_color = color, job_name = n\<rparr>)))))"


subsection \<open>Example requests\<close>

definition example_repository :: repository where
  "example_repository =
     \<lparr>repo_name = Some ''BGAW'', repo_html_url = Some ''https://github.com/LightSage/BGAW''\<rparr>"

definition example_actor :: actor where
  "example_actor =
     \<lparr>actor_login = Some ''LightSage'', actor_html_url = Some ''https://github.com/LightSage'',
      actor_avatar_url = Some ''https://avatars.githubusercontent.com/u/1''\<rparr>"

definition job_payload :: "string option \<Rightarrow> string option \<Rightarrow> string \<Rightarrow> int \<Rightarrow> payload" where
  "job_payload sha conclusion status rid =
     \<lparr>p_repository = Some example_repository,
      p_workflow_job = Some
        \<lparr>wj_head_sha = sha, wj_conclusion = Some conclusion, wj_status = Some status,
         wj_run_id = Some rid, wj_workflow_name = Some ''build''\<rparr>,
      p_workflow_run = None, p_check_run = None\<rparr>"

definition run_payload :: "string \<Rightarrow> payload" where
  "run_payload trigger =
     \<lparr>p_repository = Some example_repository,
      p_workflow_job = None,
      p_workflow_run = Some
        \<lparr>wr_head_sha = Some ''sha1'', wr_event = Some trigger,
         wr_triggering_actor = Some example_actor, wr_pull_requests = Some []\<rparr>,
      p_check_run = None\<rparr>"

definition check_payload :: payload where
  "check_payload =
     \<lparr>p_repository = Some example_repository, p_workflow_job = None, p_workflow_run = None,
      p_check_run = Some \<lparr>cr_head_sha = Some ''sha1''\<rparr>\<rparr>"

definition example_request :: "string \<Rightarrow> payload \<Rightarrow> request" where
  "example_request event p =
     \<lparr>req_payload = p, req_webhook_id = 1, req_webhook_token = ''token'',
      req_event_header = Some event, req_thread_id = None\<rparr>"

definition example_embed :: Embed where
  "example_embed =
     \<lparr>embed_color = og_blurple, embed_title = Some ''[BGAW] Workflows'',
      embed_url = Some ''https://github.com/LightSage/BGAW/commit/sha1'',
      embed_description = None, embed_author = None\<rparr>"

definition published_record :: WorkflowEmbed where
  "published_record = \<lparr>we_embed = example_embed, we_workflows = [], we_message = Some 7\<rparr>"

definition example_later :: "(real \<times> delivery \<times> request) list" where
  "example_later =
     [(1, Delivered 0,
       example_request ''workflow_job'' (job_payload (Some ''sha1'') None ''in_progress'' 1)),
      (2, Failed,
       example_request ''workflow_job'' (job_payload (Some ''sha1'') (Some ''failure'') ''completed'' 2))]"

section \<open>Properties\<close>

subsection \<open>Status markers\<close>

lemma markers_distinct:
  "distinct [LARGE_RED_CIRCLE, LARGE_GREEN_CIRCLE, LARGE_YELLOW_CIRCLE, WindowsLoading,
     BLACK_QUESTION_MARK_ORNAMENT]"
  by (simp add: LARGE_RED_CIRCLE_def LARGE_GREEN_CIRCLE_def LARGE_YELLOW_CIRCLE_def
      WindowsLoading_def BLACK_QUESTION_MARK_ORNAMENT_def)

lemma determine_color_failure_needs_no_status:
  "wj_conclusion j = Some (Some ''failure'') \<Longrightarrow> determine_color j = Inr LARGE_RED_CIRCLE"
  by (simp add: determine_color_def getitem_def)

text \<open>
  C7. For a job payload that carries a conclusion \<open>c\<close> (possibly null) and a status
  \<open>s\<close>, the marker follows the precedence: conclusion \<^verbatim>\<open>"failure"\<close> gives the red circle
  (Failed); otherwise conclusion \<^verbatim>\<open>"success"\<close> gives the green circle (Succeeded);
  otherwise status \<^verbatim>\<open>"queued"\<close> gives the yellow circle (Queued); otherwise status
  \<^verbatim>\<open>"in_progress"\<close> gives the loading emoji (InProgress); otherwise the question mark
  (Unknown). The five markers are pairwise different.
\<close>

theorem determine_color_precedence:
  assumes "wj_conclusion j = Some c" and "wj_status j = Some s"
  shows "determine_color j =
           Inr (if c = Some ''failure'' then LARGE_RED_CIRCLE
                else if c = Some ''success'' then LARGE_GREEN_CIRCLE
                else if s = ''queued'' then LARGE_YELLOW_CIRCLE
                else if s = ''in_progress'' then WindowsLoading
                else BLACK_QUESTION_MARK_ORNAMENT)
         \<and> distinct [LARGE_RED_CIRCLE, LARGE_GREEN_CIRCLE, LARGE_YELLOW_CIRCLE, WindowsLoading,
              BLACK_QUESTION_MARK_ORNAMENT]"
  using assms markers_distinct by (simp add: determine_color_def getitem_def)

theorem determine_color_precedence_witness:
  "determine_color
     \<lparr>wj_head_sha = Some ''sha1'', wj_conclusion = Some None, wj_status = Some ''queued'',
      wj_run_id = Some 1, wj_workflow_name = Some ''build''\<rparr> = Inr LARGE_YELLOW_CIRCLE
   \<and> determine_color
     \<lparr>wj_head_sha = Some ''sha1'', wj_conclusion = Some (Some ''failure''),
      wj_status = Some ''queued'', wj_run_id = Some 1, wj_workflow_name = Some ''build''\<rparr>
       = Inr LARGE_RED_CIRCLE"
  using determine_color_precedence
          [of "\<lparr>wj_head_sha = Some ''sha1'', wj_conclusion = Some None, wj_status = Some ''queued'',
                 wj_run_id = Some 1, wj_workflow_name = Some ''build''\<rparr>" None "''queued''"]
        determine_color_precedence
          [of "\<lparr>wj_head_sha = Some ''sha1'', wj_conclusion = Some (Some ''failure''),
                 wj_status = Some ''queued'', wj_run_id = Some 1, wj_workflow_name = Some ''build''\<rparr>"
              "Some ''failure''" "''queued''"]
  by simp

subsection \<open>The expiring store\<close>

lemma ttl_pos: "0 < ttl"
  by (simp add: ttl_def)

lemma map_of_cache_store:
  "map_of (cache_store c k v) k' =
     (if k' = k then map_option (\<lambda>(expires, obj). (expires, v)) (map_of c k) else map_of c k')"
  by (induction c k v rule: cache_store.induct) auto

lemma cache_get_cache_store:
  "cache_get c now k = Some obj \<Longrightarrow> cache_get (cache_store c k v) now k = Some v"
  by (auto simp: cache_get_def map_of_cache_store split: option.splits if_splits)

lemma cache_get_cache_store_other:
  "k' \<noteq> k \<Longrightarrow> cache_get (cache_store c k v) now k' = cache_get c now k'"
  by (simp add: cache_get_def map_of_cache_store)

lemma cache_store_same:
  "map_of c k = Some (expires, obj) \<Longrightarrow> cache_store c k obj = c"
  by (induction c k obj rule: cache_store.induct) (auto split: if_splits)

lemma cache_get_store_same:
  "cache_get c now k = Some obj \<Longrightarrow> cache_store c k obj = c"
  by (auto simp: cache_get_def cache_store_same split: option.splits if_splits)

lemma length_cache_store: "length (cache_store c k v) = length c"
  by (induction c k v rule: cache_store.induct) auto

lemma map_of_cache_set:
  "map_of (cache_set c now k v) k = Some (now + ttl, v)"
proof -
  have "map_of (c2 @ [(k, now + ttl, v)]) k = Some (now + ttl, v)" if "k \<notin> fst ` set c2" for c2
    using that by (induction c2) auto
  moreover have "k \<notin> fst ` set (filter (\<lambda>e. fst e \<noteq> k) c1)" for c1 :: cache
    by auto
  moreover have "k \<notin> fst ` set (drop n c1)" if "k \<notin> fst ` set c1" for c1 :: cache and n
    using that by (auto dest: in_set_dropD)
  ultimately show ?thesis
    by (simp add: cache_set_def Let_def)
qed

lemma cache_get_cache_set: "cache_get (cache_set c now k v) now k = Some v"
  by (simp add: cache_get_def map_of_cache_set ttl_pos)

lemma length_cache_expire: "length (cache_expire c now) \<le> length c"
  by (simp add: cache_expire_def)

lemma length_cache_set: "length c \<le> maxsize \<Longrightarrow> length (cache_set c now k v) \<le> maxsize"
proof -
  assume c: "length c \<le> maxsize"
  let ?c1 = "cache_expire c now"
  have l1: "length ?c1 \<le> maxsize" using c length_cache_expire[of c now] by linarith
  show ?thesis
  proof (cases "k \<in> fst ` set ?c1")
    case True
    then obtain e where e: "e \<in> set ?c1" "fst e = k" by auto
    have "length (filter (\<lambda>e. fst e \<noteq> k) ?c1) < length ?c1"
      by (rule length_filter_less[OF e(1)]) (simp add: e(2))
    with l1 True show ?thesis by (simp add: cache_set_def Let_def)
  next
    case False
    then show ?thesis using l1 by (simp add: cache_set_def Let_def maxsize_def)
  qed
qed


subsection \<open>Job updates\<close>

lemma message_edit_cases:
  "message_edit self d =
     (case we_message self of
        None \<Rightarrow> (Some (AttributeError ''edit''), [])
      | Some m \<Rightarrow> (if d = Failed then Some DeliveryError else None, [Edit m (we_embed self)]))"
  by (simp add: message_edit_def split: option.splits delivery.splits)

lemma determine_color_Inl:
  "determine_color j = Inl e \<Longrightarrow> \<exists>k. e = KeyError k"
  by (cases "wj_conclusion j"; cases "wj_status j")
     (auto simp: determine_color_def getitem_def split: if_splits)

lemma handle_workflow_job_reported:
  "job_update p = Some (rid, e) \<Longrightarrow>
   handle_workflow_job self p d =
     (fst (message_edit
        (self\<lparr>we_workflows := AList.update rid e (we_workflows self),
              we_embed := (we_embed self)\<lparr>embed_description :=
                 Some (create_description (self\<lparr>we_workflows := AList.update rid e (we_workflows self)\<rparr>))\<rparr>\<rparr>) d),
      self\<lparr>we_workflows := AList.update rid e (we_workflows self),
              we_embed := (we_embed self)\<lparr>embed_description :=
                 Some (create_description (self\<lparr>we_workflows := AList.update rid e (we_workflows self)\<rparr>))\<rparr>\<rparr>,
      snd (message_edit
        (self\<lparr>we_workflows := AList.update rid e (we_workflows self),
              we_embed := (we_embed self)\<lparr>embed_description :=
                 Some (create_description (self\<lparr>we_workflows := AList.update rid e (we_workflows self)\<rparr>))\<rparr>\<rparr>) d))"
  apply (cases "p_workflow_job p")
   apply (simp add: job_update_def)
  subgoal for j
    apply (cases "determine_color j")
     apply (simp add: job_update_def)
    apply (cases "wj_workflow_name j")
     apply (simp add: job_update_def)
    apply (cases "wj_run_id j")
     apply (simp add: job_update_def)
    apply (simp add: job_update_def handle_workflow_job_def getitem_def Let_def case_prod_beta)
    done
  done

lemma handle_workflow_job_missing:
  "job_update p = None \<Longrightarrow>
     \<exists>k. handle_workflow_job self p d = (Some (KeyError k), self, [])"
  apply (cases "p_workflow_job p")
   apply (simp add: handle_workflow_job_def getitem_def)
  subgoal for j
    apply (cases "determine_color j")
     apply (frule determine_color_Inl)
     apply (auto simp add: handle_workflow_job_def getitem_def)[1]
    apply (cases "wj_workflow_name j")
     apply (simp add: handle_workflow_job_def getitem_def)
    apply (cases "wj_run_id j")
     apply (simp add: handle_workflow_job_def getitem_def)
    apply (simp add: job_update_def)
    done
  done



lemma handle_workflow_job_frame:
  assumes "handle_workflow_job self p d = (err, self', acts)"
  shows "we_message self' = we_message self
     \<and> embed_title (we_embed self') = embed_title (we_embed self)
     \<and> embed_author (we_embed self') = embed_author (we_embed self)
     \<and> embed_url (we_embed self') = embed_url (we_embed self)
     \<and> embed_color (we_embed self') = embed_color (we_embed self)"
proof (cases "job_update p")
  case None
  then show ?thesis using handle_workflow_job_missing[OF None, of self d] assms by auto
next
  case (Some a)
  obtain rid e where "a = (rid, e)" by (cases a)
  with Some assms show ?thesis
    by (auto simp: handle_workflow_job_reported)
qed


lemma handle_workflow_job_actions:
  assumes "handle_workflow_job self p d = (err, self', acts)"
  shows "acts = [] \<or> (\<exists>m. we_message self = Some m \<and> acts = [Edit m (we_embed self')])"
proof (cases "job_update p")
  case None
  then show ?thesis using handle_workflow_job_missing[OF None, of self d] assms by auto
next
  case (Some a)
  obtain rid e where "a = (rid, e)" by (cases a)
  with Some assms show ?thesis
    by (auto simp: handle_workflow_job_reported message_edit_cases split: option.splits if_splits)
qed






lemma job_update_job_payload:
  "job_update (job_payload sha c s rid) =
     Some (rid, \<lparr>job_color = (if c = Some ''failure'' then LARGE_RED_CIRCLE
                else if c = Some ''success'' then LARGE_GREEN_CIRCLE
                else if s = ''queued'' then LARGE_YELLOW_CIRCLE
                else if s = ''in_progress'' then WindowsLoading
                else BLACK_QUESTION_MARK_ORNAMENT), job_name = ''build''\<rparr>)"
  by (simp add: job_update_def job_payload_def determine_color_def getitem_def)



subsection \<open>The request handler, branch by branch\<close>

lemma getitem_Inl: "getitem k f = Inl e \<Longrightarrow> e = KeyError k"
  by (simp add: getitem_def split: option.splits)

lemma head_sha_Inl: "head_sha p ev = Inl e \<Longrightarrow> \<exists>k. e = KeyError k"
  by (auto simp: head_sha_def dest: getitem_Inl split: if_splits sum.splits)

lemma repository_name_Inl: "repository_name p = Inl e \<Longrightarrow> \<exists>k. e = KeyError k"
  by (auto simp: repository_name_def dest: getitem_Inl split: sum.splits)

lemma repository_html_url_Inl: "repository_html_url p = Inl e \<Longrightarrow> \<exists>k. e = KeyError k"
  by (auto simp: repository_html_url_def dest: getitem_Inl split: sum.splits)

lemma new_WorkflowEmbed_Inl: "new_WorkflowEmbed ev p = Inl e \<Longrightarrow> \<exists>k. e = KeyError k"
  by (auto simp: new_WorkflowEmbed_def create_embed_def Let_def
      dest: head_sha_Inl repository_name_Inl repository_html_url_Inl split: sum.splits)

lemma new_WorkflowEmbed_Inr:
  assumes "new_WorkflowEmbed ev p = Inr obj"
  shows "\<exists>n u sha. repository_name p = Inr n \<and> repository_html_url p = Inr u \<and> head_sha p ev = Inr sha
     \<and> obj = \<lparr>we_embed = \<lparr>embed_color = og_blurple, embed_title = Some (''['' @ n @ ''] Workflows''),
                  embed_url = Some (u @ ''/commit/'' @ sha), embed_description = None,
                  embed_author = None\<rparr>,
               we_workflows = [], we_message = None\<rparr>"
  using assms
  by (auto simp: new_WorkflowEmbed_def create_embed_def Let_def new_Embed_def split: sum.splits)

lemma workflow_dispatch_branch_frame:
  assumes "workflow_dispatch_branch self p r = (err, self')"
  shows "we_message self' = we_message self \<and> we_workflows self' = we_workflows self
     \<and> (err = None \<or> (\<exists>k. err = Some (KeyError k)))"
  using assms
  by (auto simp: workflow_dispatch_branch_def Let_def set_author_def
      dest: getitem_Inl repository_name_Inl split: sum.splits)

lemma pull_request_branch_frame:
  assumes "pull_request_branch self p r = (err, self')"
  shows "we_message self' = we_message self \<and> we_workflows self' = we_workflows self
     \<and> (err = None \<or> (\<exists>k. err = Some (KeyError k)))"
  using assms
  by (auto simp: pull_request_branch_def Let_def set_author_def
      dest: getitem_Inl repository_name_Inl repository_html_url_Inl
      split: sum.splits list.splits option.splits)


lemma handle_workflow_run_unpublished:
  assumes "we_message self = None" and "handle_workflow_run self p d = (err, self', acts)"
  shows "acts = [] \<and> we_message self' = None \<and> we_workflows self' = we_workflows self
     \<and> (err = None \<or> (\<exists>k. err = Some (KeyError k)))"
proof (cases "getitem ''workflow_run'' (p_workflow_run p)")
  case (Inl e)
  then show ?thesis using assms by (auto simp: handle_workflow_run_def dest: getitem_Inl)
next
  case r: (Inr r)
  show ?thesis
  proof (cases "getitem ''event'' (wr_event r)")
    case (Inl e)
    then show ?thesis using assms r by (auto simp: handle_workflow_run_def dest: getitem_Inl)
  next
    case ev: (Inr ev)
    define B1 where
      "B1 = (if ev = ''workflow_dispatch'' then workflow_dispatch_branch self p r else (None, self))"
    obtain err1 self1 where b1: "B1 = (err1, self1)" by (cases B1)
    define B2 where
      "B2 = (if ev = ''pull_request'' then pull_request_branch self1 p r else (None, self1))"
    obtain err2 self2 where b2: "B2 = (err2, self2)" by (cases B2)
    have f1: "we_message self1 = None \<and> we_workflows self1 = we_workflows self
        \<and> (err1 = None \<or> (\<exists>k. err1 = Some (KeyError k)))"
      using assms(1) b1 workflow_dispatch_branch_frame[of self p r err1 self1]
      by (auto simp: B1_def split: if_splits)
    have f2: "we_message self2 = None \<and> we_workflows self2 = we_workflows self
        \<and> (err2 = None \<or> (\<exists>k. err2 = Some (KeyError k)))"
      using f1 b2 pull_request_branch_frame[of self1 p r err2 self2]
      by (auto simp: B2_def split: if_splits)
    have "handle_workflow_run self p d =
            (let (err1, self1) = B1 in
             case err1 of Some e \<Rightarrow> (Some e, self1, [])
             | None \<Rightarrow>
               (let (err2, self2) =
                      (if ev = ''pull_request'' then pull_request_branch self1 p r else (None, self1))
                in case err2 of Some e \<Rightarrow> (Some e, self2, [])
                   | None \<Rightarrow>
                     (if we_message self2 \<noteq> None then
                        (let (err, acts) = message_edit self2 d in (err, self2, acts))
                      else (None, self2, []))))"
      by (simp add: handle_workflow_run_def r ev B1_def)
    also have "\<dots> =
            (case err1 of Some e \<Rightarrow> (Some e, self1, [])
             | None \<Rightarrow>
               (let (err2, self2) = B2
                in case err2 of Some e \<Rightarrow> (Some e, self2, [])
                   | None \<Rightarrow>
                     (if we_message self2 \<noteq> None then
                        (let (err, acts) = message_edit self2 d in (err, self2, acts))
                      else (None, self2, []))))"
      by (cases err1) (simp_all add: b1 B2_def)
    also have "\<dots> =
            (case err1 of Some e \<Rightarrow> (Some e, self1, [])
             | None \<Rightarrow> (case err2 of Some e \<Rightarrow> (Some e, self2, []) | None \<Rightarrow> (None, self2, [])))"
      using f2 by (cases err1; cases err2) (simp_all add: b2)
    finally show ?thesis using assms(2) f1 f2 by (auto split: option.splits)
  qed
qed

lemma receive_event_unrecognised:
  assumes "req_event_header req = Some ev"
    and "ev \<notin> {''workflow_job'', ''check_run'', ''workflow_run''}"
  shows "receive_event c now d req = (None, c, [])"
  using assms by (simp add: receive_event_def getitem_def)

lemma receive_event_live:
  assumes "req_event_header req = Some ev"
    and "ev \<in> {''workflow_job'', ''check_run'', ''workflow_run''}"
    and "head_sha (req_payload req) ev = Inr key"
    and "cache_get c now key = Some obj"
  shows "receive_event c now d req =
           (if ev = ''workflow_job'' then
              (fst (handle_workflow_job obj (req_payload req) d),
               cache_store c key (fst (snd (handle_workflow_job obj (req_payload req) d))),
               snd (snd (handle_workflow_job obj (req_payload req) d)))
            else (None, c, []))"
  using assms cache_get_store_same[OF assms(4)]
  by (auto simp: receive_event_def getitem_def handle_check_run_def Let_def case_prod_beta)

lemma receive_event_absent:
  assumes "req_event_header req = Some ev"
    and "ev \<in> {''workflow_job'', ''check_run'', ''workflow_run''}"
    and "head_sha (req_payload req) ev = Inr key"
    and "cache_get c now key = None"
    and "new_WorkflowEmbed ev (req_payload req) = Inr obj0"
    and "(if ev = ''workflow_run'' then handle_workflow_run obj0 (req_payload req) d
          else (None, obj0, [])) = (None, obj, acts1)"
  shows "receive_event c now d req =
           (case d of
              Failed \<Rightarrow>
                (Some DeliveryError, cache_set c now key obj,
                 [Send (req_webhook_id req) (req_webhook_token req) (we_embed obj)
                    (thread_param (req_thread_id req))])
            | Delivered m \<Rightarrow>
                (None, cache_store (cache_set c now key obj) key (obj\<lparr>we_message := Some m\<rparr>),
                 [Send (req_webhook_id req) (req_webhook_token req) (we_embed obj)
                    (thread_param (req_thread_id req))]))"
proof -
  have m0: "we_message obj0 = None"
    using new_WorkflowEmbed_Inr[OF assms(5)] by auto
  have a1: "acts1 = []"
    using assms(6) handle_workflow_run_unpublished[OF m0, of "req_payload req" d None obj acts1]
    by (auto split: if_splits)
  have "receive_event c now d req =
          (let (err1, obj', acts1') =
                 (if ev = ''workflow_run'' then handle_workflow_run obj0 (req_payload req) d
                  else (None, obj0, []))
           in
          (case err1 of
             Some e \<Rightarrow> (Some e, c, acts1')
           | None \<Rightarrow>
          (let c1 = cache_set c now key obj';
               send = Send (req_webhook_id req) (req_webhook_token req) (we_embed obj')
                        (thread_param (req_thread_id req))
           in
          (case d of
             Failed \<Rightarrow> (Some DeliveryError, c1, acts1' @ [send])
           | Delivered m \<Rightarrow>
               (case cache_get c1 now key of
                  None \<Rightarrow> (Some (KeyError key), c1, acts1' @ [send])
                | Some stored \<Rightarrow>
                    (None, cache_store c1 key (stored\<lparr>we_message := Some m\<rparr>), acts1' @ [send]))))))"
    using assms(1-5) by (simp add: receive_event_def getitem_def)
  then show ?thesis
    by (simp add: assms(6) a1 Let_def cache_get_cache_set split: delivery.splits)
qed


lemma receive_event_init_error:
  assumes "req_event_header req = Some ev"
    and "ev \<in> {''workflow_job'', ''check_run'', ''workflow_run''}"
    and "head_sha (req_payload req) ev = Inr key"
    and "cache_get c now key = None"
    and "new_WorkflowEmbed ev (req_payload req) = Inl e"
  shows "receive_event c now d req = (Some e, c, [])"
  using assms by (simp add: receive_event_def getitem_def)

lemma receive_event_handler_error:
  assumes "req_event_header req = Some ev"
    and "ev \<in> {''workflow_job'', ''check_run'', ''workflow_run''}"
    and "head_sha (req_payload req) ev = Inr key"
    and "cache_get c now key = None"
    and "new_WorkflowEmbed ev (req_payload req) = Inr obj0"
    and "(if ev = ''workflow_run'' then handle_workflow_run obj0 (req_payload req) d
          else (None, obj0, [])) = (Some e, obj, acts1)"
  shows "receive_event c now d req = (Some e, c, []) \<and> (\<exists>k. e = KeyError k)"
proof -
  have m0: "we_message obj0 = None"
    using new_WorkflowEmbed_Inr[OF assms(5)] by auto
  have a1: "acts1 = [] \<and> (\<exists>k. e = KeyError k)"
    using assms(6) handle_workflow_run_unpublished[OF m0, of "req_payload req" d "Some e" obj acts1]
    by (auto split: if_splits)
  have "receive_event c now d req =
          (let (err1, obj', acts1') =
                 (if ev = ''workflow_run'' then handle_workflow_run obj0 (req_payload req) d
                  else (None, obj0, []))
           in
          (case err1 of
             Some e \<Rightarrow> (Some e, c, acts1')
           | None \<Rightarrow>
          (let c1 = cache_set c now key obj';
               send = Send (req_webhook_id req) (req_webhook_token req) (we_embed obj')
                        (thread_param (req_thread_id req))
           in
          (case d of
             Failed \<Rightarrow> (Some DeliveryError, c1, acts1' @ [send])
           | Delivered m \<Rightarrow>
               (case cache_get c1 now key of
                  None \<Rightarrow> (Some (KeyError key), c1, acts1' @ [send])
                | Some stored \<Rightarrow>
                    (None, cache_store c1 key (stored\<lparr>we_message := Some m\<rparr>), acts1' @ [send]))))))"
    using assms(1-5) by (simp add: receive_event_def getitem_def)
  then show ?thesis
    using a1 by (simp add: assms(6))
qed

lemma receive_event_no_header:
  "req_event_header req = None \<Longrightarrow>
     receive_event c now d req = (Some (KeyError ''X-GitHub-Event''), c, [])"
  by (simp add: receive_event_def getitem_def)

lemma receive_event_no_sha:
  assumes "req_event_header req = Some ev"
    and "ev \<in> {''workflow_job'', ''check_run'', ''workflow_run''}"
    and "head_sha (req_payload req) ev = Inl e"
  shows "receive_event c now d req = (Some e, c, [])"
  using assms by (simp add: receive_event_def getitem_def)

lemma receive_event_cases [case_names no_header unrecognised no_sha live init_error handler_error created]:
  assumes "req_event_header req = None \<Longrightarrow> P"
    and "\<And>ev. req_event_header req = Some ev \<Longrightarrow>
           ev \<notin> {''workflow_job'', ''check_run'', ''workflow_run''} \<Longrightarrow> P"
    and "\<And>ev e. req_event_header req = Some ev \<Longrightarrow>
           ev \<in> {''workflow_job'', ''check_run'', ''workflow_run''} \<Longrightarrow>
           head_sha (req_payload req) ev = Inl e \<Longrightarrow> P"
    and "\<And>ev key obj. req_event_header req = Some ev \<Longrightarrow>
           ev \<in> {''workflow_job'', ''check_run'', ''workflow_run''} \<Longrightarrow>
           head_sha (req_payload req) ev = Inr key \<Longrightarrow> cache_get c now key = Some obj \<Longrightarrow> P"
    and "\<And>ev key e. req_event_header req = Some ev \<Longrightarrow>
           ev \<in> {''workflow_job'', ''check_run'', ''workflow_run''} \<Longrightarrow>
           head_sha (req_payload req) ev = Inr key \<Longrightarrow> cache_get c now key = None \<Longrightarrow>
           new_WorkflowEmbed ev (req_payload req) = Inl e \<Longrightarrow> P"
    and "\<And>ev key obj0 e obj acts1. req_event_header req = Some ev \<Longrightarrow>
           ev \<in> {''workflow_job'', ''check_run'', ''workflow_run''} \<Longrightarrow>
           head_sha (req_payload req) ev = Inr key \<Longrightarrow> cache_get c now key = None \<Longrightarrow>
           new_WorkflowEmbed ev (req_payload req) = Inr obj0 \<Longrightarrow>
           (if ev = ''workflow_run'' then handle_workflow_run obj0 (req_payload req) d
            else (None, obj0, [])) = (Some e, obj, acts1) \<Longrightarrow> P"
    and "\<And>ev key obj0 obj acts1. req_event_header req = Some ev \<Longrightarrow>
           ev \<in> {''workflow_job'', ''check_run'', ''workflow_run''} \<Longrightarrow>
           head_sha (req_payload req) ev = Inr key \<Longrightarrow> cache_get c now key = None \<Longrightarrow>
           new_WorkflowEmbed ev (req_payload req) = Inr obj0 \<Longrightarrow>
           (if ev = ''workflow_run'' then handle_workflow_run obj0 (req_payload req) d
            else (None, obj0, [])) = (None, obj, acts1) \<Longrightarrow> P"
  shows P
proof (cases "req_event_header req")
  case None
  then show ?thesis by (rule assms(1))
next
  case (Some ev)
  show ?thesis
  proof (cases "ev \<in> {''workflow_job'', ''check_run'', ''workflow_run''}")
    case False
    with Some show ?thesis by (rule assms(2))
  next
    case True
    show ?thesis
    proof (cases "head_sha (req_payload req) ev")
      case (Inl e)
      with Some True show ?thesis by (rule assms(3))
    next
      case (Inr key)
      show ?thesis
      proof (cases "cache_get c now key")
        case live: (Some obj)
        with Some True Inr show ?thesis by (rule assms(4))
      next
        case absent: None
        show ?thesis
        proof (cases "new_WorkflowEmbed ev (req_payload req)")
          case (Inl e)
          with Some True Inr absent show ?thesis by (rule assms(5))
        next
          case obj0: (Inr obj0)
          obtain err1 obj acts1 where h:
            "(if ev = ''workflow_run'' then handle_workflow_run obj0 (req_payload req) d
              else (None, obj0, [])) = (err1, obj, acts1)"
            by (cases "if ev = ''workflow_run'' then handle_workflow_run obj0 (req_payload req) d
              else (None, obj0, [])")
          show ?thesis
          proof (cases err1)
            case None
            with Some True Inr absent obj0 h show ?thesis by (intro assms(7)) auto
          next
            case (Some e)
            with \<open>req_event_header req = Some ev\<close> True Inr absent obj0 h show ?thesis
              by (intro assms(6)) auto
          qed
        qed
      qed
    qed
  qed
qed


lemma receive_event_length:
  assumes "length c \<le> maxsize"
  shows "length (fst (snd (receive_event c now d req))) \<le> maxsize"
proof (cases rule: receive_event_cases[where req=req and c=c and now=now and d=d])
  case no_header
  then show ?thesis using assms by (simp add: receive_event_no_header)
next
  case (unrecognised ev)
  then show ?thesis using assms by (simp add: receive_event_unrecognised)
next
  case (no_sha ev e)
  then show ?thesis using assms by (simp add: receive_event_no_sha)
next
  case (live ev key obj)
  from receive_event_live[OF live, of d] show ?thesis using assms
    by (simp add: length_cache_store)
next
  case (init_error ev key e)
  then show ?thesis using assms by (simp add: receive_event_init_error)
next
  case (handler_error ev key obj0 e obj acts1)
  from receive_event_handler_error[OF handler_error] show ?thesis using assms by auto
next
  case (created ev key obj0 obj acts1)
  from receive_event_absent[OF created] show ?thesis using length_cache_set[OF assms]
    by (auto simp: length_cache_store split: delivery.splits)
qed

lemma receive_events_length:
  "length c \<le> maxsize \<Longrightarrow> length (fst (receive_events c evs)) \<le> maxsize"
proof (induction evs arbitrary: c)
  case Nil
  then show ?case by simp
next
  case (Cons x evs)
  obtain now d req where x: "x = (now, d, req)" by (cases x)
  obtain err c1 acts where r: "receive_event c now d req = (err, c1, acts)"
    by (cases "receive_event c now d req")
  have "length c1 \<le> maxsize"
    using receive_event_length[OF Cons.prems, of now d req] r by simp
  from Cons.IH[OF this] show ?case
    by (auto simp: x r split: prod.splits)
qed

subsection \<open>Single requests\<close>

lemmas example_defs =
  example_request_def job_payload_def run_payload_def check_payload_def example_repository_def
  example_actor_def example_embed_def published_record_def

lemmas handler_defs =
  receive_event_def getitem_def head_sha_def cache_get_def cache_set_def cache_expire_def
  new_WorkflowEmbed_def create_embed_def new_Embed_def repository_name_def
  repository_html_url_def thread_param_def ttl_def maxsize_def handle_check_run_def

text \<open>
  C2. A job update that is the first event for its commit should create the record and
  send a summary that already holds the job's line. The handler does create the record and
  send, but the branch of a new key never calls \<open>handle_workflow_job\<close> (it calls only
  \<open>handle_workflow_run\<close>, for a run update): for the queued job 1 of commit \<^verbatim>\<open>sha1\<close> on
  an empty store the message sent has no description and the stored record has no job.
\<close>

theorem first_job_update_publishes_no_line:
  "receive_event [] 0 (Delivered 7)
     (example_request ''workflow_job'' (job_payload (Some ''sha1'') None ''queued'' 1)) =
   (None,
    [(''sha1'', 600, \<lparr>we_embed = example_embed, we_workflows = [], we_message = Some 7\<rparr>)],
    [Send 1 ''token'' example_embed None])
   \<and> embed_description example_embed = None"
  by (simp add: handler_defs example_defs)

text \<open>
  C3. A run update for a key whose record exists should apply the manual-trigger changes
  and edit the published message. The branch of a live record dispatches only
  \<^verbatim>\<open>check_run\<close> and \<^verbatim>\<open>workflow_job\<close>: a manually triggered run update for the published
  record of \<^verbatim>\<open>sha1\<close> changes nothing and edits nothing, although the record has a handle.
\<close>

theorem run_update_for_existing_record_ignored:
  "receive_event [(''sha1'', 600, published_record)] 1 (Delivered 0)
     (example_request ''workflow_run'' (run_payload ''workflow_dispatch'')) =
   (None, [(''sha1'', 600, published_record)], [])
   \<and> we_message published_record = Some 7"
  by (simp add: handler_defs example_defs)

text \<open>
  C4, as stated, fails: a \<^verbatim>\<open>check_run\<close> event for a commit without a record creates the
  record, stores it and sends the message.
\<close>

theorem check_run_creates_and_sends_counterexample:
  "receive_event [] 0 (Delivered 7) (example_request ''check_run'' check_payload) =
   (None,
    [(''sha1'', 600, \<lparr>we_embed = example_embed, we_workflows = [], we_message = Some 7\<rparr>)],
    [Send 1 ''token'' example_embed None])"
  by (simp add: handler_defs example_defs)

text \<open>
  C4, amended. A \<^verbatim>\<open>check_suite\<close> event is dropped at the guard of the handler, and a
  \<^verbatim>\<open>check_run\<close> event whose commit has a live record is accepted; both leave the store
  as it is, publish nothing and raise nothing. A \<^verbatim>\<open>check_run\<close> event whose commit has no
  live record, and whose payload names the repository, creates the record from the payload,
  stores it and attempts the initial send; the handle is recorded when the send succeeds.
\<close>

theorem check_events_handling:
  "(req_event_header req = Some ''check_suite''
      \<longrightarrow> receive_event c now d req = (None, c, []))
   \<and> (req_event_header req = Some ''check_run''
        \<and> head_sha (req_payload req) ''check_run'' = Inr key
        \<and> cache_get c now key \<noteq> None
      \<longrightarrow> receive_event c now d req = (None, c, []))
   \<and> (req_event_header req = Some ''check_run''
        \<and> head_sha (req_payload req) ''check_run'' = Inr key
        \<and> cache_get c now key = None
        \<and> new_WorkflowEmbed ''check_run'' (req_payload req) = Inr obj
      \<longrightarrow> receive_event c now d req =
            (case d of
               Failed \<Rightarrow>
                 (Some DeliveryError, cache_set c now key obj,
                  [Send (req_webhook_id req) (req_webhook_token req) (we_embed obj)
                     (thread_param (req_thread_id req))])
             | Delivered m \<Rightarrow>
                 (None, cache_store (cache_set c now key obj) key (obj\<lparr>we_message := Some m\<rparr>),
                  [Send (req_webhook_id req) (req_webhook_token req) (we_embed obj)
                     (thread_param (req_thread_id req))])))"
proof (intro conjI impI)
  assume "req_event_header req = Some ''check_suite''"
  then show "receive_event c now d req = (None, c, [])"
    by (rule receive_event_unrecognised) simp
next
  assume a: "req_event_header req = Some ''check_run''
        \<and> head_sha (req_payload req) ''check_run'' = Inr key
        \<and> cache_get c now key \<noteq> None"
  then obtain obj' where "cache_get c now key = Some obj'" by auto
  with a receive_event_live[of req "''check_run''" key c now obj' d]
  show "receive_event c now d req = (None, c, [])" by simp
next
  assume a: "req_event_header req = Some ''check_run''
        \<and> head_sha (req_payload req) ''check_run'' = Inr key
        \<and> cache_get c now key = None
        \<and> new_WorkflowEmbed ''check_run'' (req_payload req) = Inr obj"
  then show "receive_event c now d req =
            (case d of
               Failed \<Rightarrow>
                 (Some DeliveryError, cache_set c now key obj,
                  [Send (req_webhook_id req) (req_webhook_token req) (we_embed obj)
                     (thread_param (req_thread_id req))])
             | Delivered m \<Rightarrow>
                 (None, cache_store (cache_set c now key obj) key (obj\<lparr>we_message := Some m\<rparr>),
                  [Send (req_webhook_id req) (req_webhook_token req) (we_embed obj)
                     (thread_param (req_thread_id req))]))"
    using receive_event_absent[of req "''check_run''" key c now obj d obj "[]"] by simp
qed

theorem check_events_handling_witness:
  "receive_event [(''sha1'', 600, published_record)] 1 (Delivered 0)
     (example_request ''check_suite'' check_payload) = (None, [(''sha1'', 600, published_record)], [])
   \<and> receive_event [(''sha1'', 600, published_record)] 1 (Delivered 0)
     (example_request ''check_run'' check_payload) = (None, [(''sha1'', 600, published_record)], [])
   \<and> receive_event [] 0 Failed (example_request ''check_run'' check_payload) =
       (Some DeliveryError,
        [(''sha1'', 600, \<lparr>we_embed = example_embed, we_workflows = [], we_message = None\<rparr>)],
        [Send 1 ''token'' example_embed None])"
proof -
  have h: "head_sha check_payload ''check_run'' = Inr ''sha1''"
    by (simp add: head_sha_def check_payload_def getitem_def)
  have n: "new_WorkflowEmbed ''check_run'' check_payload =
             Inr \<lparr>we_embed = example_embed, we_workflows = [], we_message = None\<rparr>"
    by (simp add: handler_defs example_defs)
  have g: "cache_get [(''sha1'', 600, published_record)] 1 ''sha1'' \<noteq> None"
    by (simp add: cache_get_def)
  have g0: "cache_get [] 0 ''sha1'' = None"
    by (simp add: cache_get_def)
  have s: "cache_set [] 0 ''sha1'' \<lparr>we_embed = example_embed, we_workflows = [], we_message = None\<rparr>
             = [(''sha1'', 600, \<lparr>we_embed = example_embed, we_workflows = [], we_message = None\<rparr>)]"
    by (simp add: cache_set_def cache_expire_def ttl_def)
  show ?thesis
    using check_events_handling
            [of "example_request ''check_suite'' check_payload"
                "[(''sha1'', 600, published_record)]" 1 "Delivered 0" "''sha1''"]
          check_events_handling
            [of "example_request ''check_run'' check_payload"
                "[(''sha1'', 600, published_record)]" 1 "Delivered 0" "''sha1''"]
          check_events_handling
            [of "example_request ''check_run'' check_payload" "[]" 0 Failed "''sha1''"
                "\<lparr>we_embed = example_embed, we_workflows = [], we_message = None\<rparr>"]
          h n g g0 s
    by (simp add: example_request_def thread_param_def)
qed




subsection \<open>Expiry\<close>

lemma cache_get_cache_set_live:
  "now' < now + ttl \<Longrightarrow> cache_get (cache_set c now k v) now' k = Some v"
  by (simp add: cache_get_def map_of_cache_set)

lemma cache_get_expired:
  "map_of c k = Some (expires, obj) \<Longrightarrow> expires \<le> now \<Longrightarrow> cache_get c now k = None"
  by (simp add: cache_get_def)

lemma cache_get_live:
  "map_of c k = Some (expires, obj) \<Longrightarrow> now < expires \<Longrightarrow> cache_get c now k = Some obj"
  by (simp add: cache_get_def)

lemma map_fst_cache_store: "map fst (cache_store c k v) = map fst c"
  by (induction c k v rule: cache_store.induct) auto

lemma distinct_cache_set:
  assumes "distinct (map fst c)"
  shows "distinct (map fst (cache_set c now k v))"
proof -
  let ?c1 = "cache_expire c now"
  have d1: "distinct (map fst ?c1)"
    using assms by (simp add: cache_expire_def distinct_map_filter)
  show ?thesis
  proof (cases "k \<in> fst ` set ?c1")
    case True
    have "distinct (map fst (filter (\<lambda>e. fst e \<noteq> k) ?c1))"
      using d1 by (rule distinct_map_filter)
    moreover have "k \<notin> fst ` set (filter (\<lambda>e. fst e \<noteq> k) ?c1)" by auto
    ultimately show ?thesis using True by (simp add: cache_set_def Let_def)
  next
    case False
    have "distinct (map fst (drop n ?c1))" for n
      using d1 by (simp add: drop_map[symmetric])
    moreover have "k \<notin> fst ` set (drop n ?c1)" for n
      using False by (auto dest: in_set_dropD)
    ultimately show ?thesis using False by (simp add: cache_set_def Let_def)
  qed
qed

lemma receive_event_distinct:
  assumes "distinct (map fst c)"
  shows "distinct (map fst (fst (snd (receive_event c now d req))))"
proof (cases rule: receive_event_cases[where req=req and c=c and now=now and d=d])
  case no_header
  then show ?thesis using assms by (simp add: receive_event_no_header)
next
  case (unrecognised ev)
  then show ?thesis using assms by (simp add: receive_event_unrecognised)
next
  case (no_sha ev e)
  then show ?thesis using assms by (simp add: receive_event_no_sha)
next
  case (live ev key obj)
  from receive_event_live[OF live, of d] show ?thesis using assms
    by (simp add: map_fst_cache_store)
next
  case (init_error ev key e)
  then show ?thesis using assms by (simp add: receive_event_init_error)
next
  case (handler_error ev key obj0 e obj acts1)
  from receive_event_handler_error[OF handler_error] show ?thesis using assms by auto
next
  case (created ev key obj0 obj acts1)
  from receive_event_absent[OF created] show ?thesis using distinct_cache_set[OF assms]
    by (auto simp: map_fst_cache_store split: delivery.splits)
qed

lemma cache_expire_without_expired_key:
  assumes "distinct (map fst c)" and "map_of c k = Some (expires, obj)" and "expires \<le> now"
  shows "cache_expire (filter (\<lambda>entry. fst entry \<noteq> k) c) now = cache_expire c now"
proof -
  have "\<And>entry. entry \<in> set c \<Longrightarrow> fst entry = k \<Longrightarrow> entry = (k, expires, obj)"
  proof -
    fix entry assume e: "entry \<in> set c" "fst entry = k"
    then have "(k, snd entry) \<in> set c" by (metis prod.collapse)
    with assms(1) have "map_of c k = Some (snd entry)" by (simp add: map_of_eq_Some_iff)
    with assms(2) e(2) show "entry = (k, expires, obj)" by (auto simp: prod_eq_iff)
  qed
  then have "\<And>entry. entry \<in> set c \<Longrightarrow> (case entry of (k', ex, ob) \<Rightarrow> now < ex) \<Longrightarrow> fst entry \<noteq> k"
    using assms(3) by fastforce
  then show ?thesis
    by (auto simp: cache_expire_def intro!: filter_cong)
qed

lemma cache_set_without_expired_key:
  assumes "distinct (map fst c)" and "map_of c k = Some (expires, obj)" and "expires \<le> now"
  shows "cache_set (filter (\<lambda>entry. fst entry \<noteq> k) c) now k' v = cache_set c now k' v"
  by (simp add: cache_set_def cache_expire_without_expired_key[OF assms])

lemma cache_get_filter_other:
  "k' \<noteq> k \<Longrightarrow> cache_get (filter (\<lambda>entry. fst entry \<noteq> k) c) now k' = cache_get c now k'"
proof -
  assume "k' \<noteq> k"
  then have "map_of (filter (\<lambda>entry. fst entry \<noteq> k) c) k' = map_of c k'"
    by (induction c) auto
  then show ?thesis by (simp add: cache_get_def)
qed

lemma cache_get_filter_same:
  "cache_get (filter (\<lambda>entry. fst entry \<noteq> k) c) now k = None"
proof -
  have "map_of (filter (\<lambda>entry. fst entry \<noteq> k) c) k = None"
    by (induction c) auto
  then show ?thesis by (simp add: cache_get_def)
qed


text \<open>
  C8. Take a store with distinct keys in which the entry of a key was inserted at time
  \<open>inserted\<close>, so that it expires at \<open>inserted + ttl\<close>, and a request for that key that
  arrives when the time-to-live has elapsed and whose payload carries what the constructor
  reads. The store answers the lookup as for an absent key; the handler builds a fresh
  record (no handle, no jobs), stores it and attempts a send, never an edit, and records
  the handle when the send succeeds; the outcome is the one the same request has on the
  store without the stale entry. An inserted entry expires 600 seconds after its
  insertion, and the store never holds more than 100 entries, whatever requests arrive.
\<close>

theorem expired_entry_is_absent:
  assumes "distinct (map fst c)"
    and "map_of c key = Some (inserted + ttl, stale)"
    and "inserted + ttl \<le> now"
    and "req_event_header req = Some ev"
    and "ev \<in> {''workflow_job'', ''check_run'', ''workflow_run''}"
    and "head_sha (req_payload req) ev = Inr key"
    and "new_WorkflowEmbed ev (req_payload req) = Inr obj0"
    and "(if ev = ''workflow_run'' then handle_workflow_run obj0 (req_payload req) d
          else (None, obj0, [])) = (None, obj, acts1)"
  shows "cache_get c now key = None
     \<and> receive_event c now d req =
           (case d of
              Failed \<Rightarrow>
                (Some DeliveryError, cache_set c now key obj,
                 [Send (req_webhook_id req) (req_webhook_token req) (we_embed obj)
                    (thread_param (req_thread_id req))])
            | Delivered m \<Rightarrow>
                (None, cache_store (cache_set c now key obj) key (obj\<lparr>we_message := Some m\<rparr>),
                 [Send (req_webhook_id req) (req_webhook_token req) (we_embed obj)
                    (thread_param (req_thread_id req))]))
     \<and> we_message obj = None \<and> we_workflows obj = []
     \<and> receive_event c now d req =
           receive_event (filter (\<lambda>entry. fst entry \<noteq> key) c) now d req
     \<and> map_of (cache_set c now key obj) key = Some (now + 600, obj)
     \<and> length (fst (receive_events [] evs)) \<le> 100
     \<and> maxsize = 100 \<and> ttl = 600"
proof -
  have absent: "cache_get c now key = None"
    by (rule cache_get_expired[OF assms(2,3)])
  note re = receive_event_absent[OF assms(4,5,6) absent assms(7,8)]
  have m0: "we_message obj0 = None" "we_workflows obj0 = []"
    using new_WorkflowEmbed_Inr[OF assms(7)] by auto
  have fresh: "we_message obj = None \<and> we_workflows obj = []"
    using assms(8) m0 handle_workflow_run_unpublished[OF m0(1), of "req_payload req" d None obj acts1]
    by (auto split: if_splits)
  have "receive_event (filter (\<lambda>entry. fst entry \<noteq> key) c) now d req =
          (case d of
              Failed \<Rightarrow>
                (Some DeliveryError, cache_set (filter (\<lambda>entry. fst entry \<noteq> key) c) now key obj,
                 [Send (req_webhook_id req) (req_webhook_token req) (we_embed obj)
                    (thread_param (req_thread_id req))])
            | Delivered m \<Rightarrow>
                (None, cache_store (cache_set (filter (\<lambda>entry. fst entry \<noteq> key) c) now key obj) key
                         (obj\<lparr>we_message := Some m\<rparr>),
                 [Send (req_webhook_id req) (req_webhook_token req) (we_embed obj)
                    (thread_param (req_thread_id req))]))"
    by (rule receive_event_absent[OF assms(4,5,6) cache_get_filter_same assms(7,8)])
  then have same: "receive_event c now d req =
           receive_event (filter (\<lambda>entry. fst entry \<noteq> key) c) now d req"
    using re by (cases d) (simp_all add: cache_set_without_expired_key[OF assms(1,2,3)])
  have ins: "map_of (cache_set c now key obj) key = Some (now + 600, obj)"
    using map_of_cache_set[of c now key obj] by (simp add: ttl_def)
  have cap: "length (fst (receive_events [] evs)) \<le> 100"
    using receive_events_length[of "[]" evs] by (simp add: maxsize_def)
  show ?thesis
    using absent re fresh same ins cap by (simp add: maxsize_def ttl_def)
qed


theorem expired_entry_is_absent_witness:
  "cache_get [(''sha1'', 600, published_record)] 600 ''sha1'' = None
   \<and> receive_event [(''sha1'', 600, published_record)] 600 (Delivered 8)
        (example_request ''workflow_job'' (job_payload (Some ''sha1'') None ''queued'' 1)) =
       (None,
        [(''sha1'', 1200, \<lparr>we_embed = example_embed, we_workflows = [], we_message = Some 8\<rparr>)],
        [Send 1 ''token'' example_embed None])"
proof -
  let ?req = "example_request ''workflow_job'' (job_payload (Some ''sha1'') None ''queued'' 1)"
  let ?obj = "\<lparr>we_embed = example_embed, we_workflows = [], we_message = None\<rparr>"
  have h1: "distinct (map fst [(''sha1'', 600::real, published_record)])" by simp
  have h2: "map_of [(''sha1'', 600::real, published_record)] ''sha1'' = Some (0 + ttl, published_record)"
    by (simp add: ttl_def)
  have h3: "0 + ttl \<le> (600::real)" by (simp add: ttl_def)
  have h4: "req_event_header ?req = Some ''workflow_job''" by (simp add: example_request_def)
  have h5: "''workflow_job'' \<in> {''workflow_job'', ''check_run'', ''workflow_run''}" by simp
  have h6: "head_sha (req_payload ?req) ''workflow_job'' = Inr ''sha1''"
    by (simp add: handler_defs example_defs)
  have h7: "new_WorkflowEmbed ''workflow_job'' (req_payload ?req) = Inr ?obj"
    by (simp add: handler_defs example_defs)
  have h8: "(if ''workflow_job'' = ''workflow_run''
             then handle_workflow_run ?obj (req_payload ?req) (Delivered 8)
             else (None, ?obj, [])) = (None, ?obj, [])" by simp
  have s: "cache_store (cache_set [(''sha1'', 600, published_record)] 600 ''sha1'' ?obj) ''sha1''
             (?obj\<lparr>we_message := Some 8\<rparr>)
           = [(''sha1'', 1200, \<lparr>we_embed = example_embed, we_workflows = [], we_message = Some 8\<rparr>)]"
    by (simp add: cache_set_def cache_expire_def ttl_def)
  note t = expired_entry_is_absent[OF h1 h2 h3 h4 h5 h6 h7 h8, of "[]"]
  from t[THEN conjunct1] t[THEN conjunct2, THEN conjunct1] s show ?thesis
    by (simp add: example_request_def thread_param_def)
qed

subsection \<open>Failed deliveries\<close>

lemma receive_event_unpublished_live:
  assumes "req_event_header req = Some ev"
    and "ev \<in> {''workflow_job'', ''check_run'', ''workflow_run''}"
    and "head_sha (req_payload req) ev = Inr key"
    and "cache_get c now key = Some obj"
    and "we_message obj = None"
  shows "snd (snd (receive_event c now d req)) = []
     \<and> (\<exists>obj'. cache_get (fst (snd (receive_event c now d req))) now key = Some obj'
            \<and> we_message obj' = None)"
proof (cases "ev = ''workflow_job''")
  case True
  obtain err obj' acts where h: "handle_workflow_job obj (req_payload req) d = (err, obj', acts)"
    by (cases "handle_workflow_job obj (req_payload req) d")
  have "acts = []"
    using handle_workflow_job_actions[OF h] assms(5) by auto
  moreover have "we_message obj' = None"
    using handle_workflow_job_frame[OF h] assms(5) by simp
  moreover have "cache_get (cache_store c key obj') now key = Some obj'"
    by (rule cache_get_cache_store[OF assms(4)])
  ultimately show ?thesis
    using receive_event_live[OF assms(1-4), of d] True h by simp
next
  case False
  then show ?thesis
    using receive_event_live[OF assms(1-4), of d] assms(4,5) by simp
qed

lemma receive_event_job_published:
  assumes "req_event_header req = Some ''workflow_job''"
    and "head_sha (req_payload req) ''workflow_job'' = Inr key"
    and "cache_get c now key = Some obj"
    and "we_message obj = Some m"
    and "job_update (req_payload req) = Some (rid, e)"
  shows "\<exists>obj1. receive_event c now d req =
            (if d = Failed then Some DeliveryError else None, cache_store c key obj1,
             [Edit m (we_embed obj1)])
          \<and> we_message obj1 = Some m
          \<and> we_workflows obj1 = AList.update rid e (we_workflows obj)"
proof -
  have "''workflow_job'' \<in> {''workflow_job'', ''check_run'', ''workflow_run''}" by simp
  note re = receive_event_live[OF assms(1) this assms(2,3), of d]
  define obj1 where "obj1 =
     obj\<lparr>we_workflows := AList.update rid e (we_workflows obj),
         we_embed := (we_embed obj)\<lparr>embed_description :=
            Some (create_description (obj\<lparr>we_workflows := AList.update rid e (we_workflows obj)\<rparr>))\<rparr>\<rparr>"
  have "receive_event c now d req =
            (if d = Failed then Some DeliveryError else None, cache_store c key obj1,
             [Edit m (we_embed obj1)])"
    using assms(4)
    by (simp add: re handle_workflow_job_reported[OF assms(5)] message_edit_cases obj1_def)
  moreover have "we_message obj1 = Some m"
    using assms(4) by (simp add: obj1_def)
  moreover have "we_workflows obj1 = AList.update rid e (we_workflows obj)"
    by (simp add: obj1_def)
  ultimately show ?thesis by blast
qed

text \<open>
  C6, as stated, fails: after a failed initial send the record is in the store without a
  handle, and the next job update for the commit finds it there; no second send is
  attempted, the edit is called on the missing handle and raises \<^verbatim>\<open>AttributeError\<close>.
\<close>

theorem failed_create_is_not_retried_counterexample:
  "receive_event [] 0 Failed
     (example_request ''workflow_job'' (job_payload (Some ''sha1'') None ''queued'' 1)) =
     (Some DeliveryError,
      [(''sha1'', 600, \<lparr>we_embed = example_embed, we_workflows = [], we_message = None\<rparr>)],
      [Send 1 ''token'' example_embed None])
   \<and> receive_event
       [(''sha1'', 600, \<lparr>we_embed = example_embed, we_workflows = [], we_message = None\<rparr>)]
       1 (Delivered 9)
       (example_request ''workflow_job'' (job_payload (Some ''sha1'') None ''in_progress'' 1)) =
     (Some (AttributeError ''edit''),
      [(''sha1'', 600,
        \<lparr>we_embed = example_embed\<lparr>embed_description := Some (WindowsLoading @ '' build'')\<rparr>,
         we_workflows = [(1, \<lparr>job_color = WindowsLoading, job_name = ''build''\<rparr>)],
         we_message = None\<rparr>)],
      [])"
  by (simp add: handler_defs example_defs handle_workflow_job_def determine_color_def
      message_edit_def create_description_def)

text \<open>
  C6, amended. If the initial send of a record fails, the record stays in the store with its
  handle unset; while that entry is live, the next event for the same commit attempts no
  send (and no other call to Discord) and the handle stays unset. If the edit of a job
  update fails, the handle is unchanged, and the next job update for the commit, while the
  entry is live, updates the jobs and attempts an edit of the same message again.
\<close>

theorem delivery_failures:
  "(req_event_header req = Some ev \<and> ev \<in> {''workflow_job'', ''check_run'', ''workflow_run''}
      \<and> head_sha (req_payload req) ev = Inr key \<and> cache_get c now key = None
      \<and> new_WorkflowEmbed ev (req_payload req) = Inr built
      \<and> (if ev = ''workflow_run'' then handle_workflow_run built (req_payload req) Failed
          else (None, built, [])) = (None, obj, acts)
      \<and> req_event_header req' = Some ev' \<and> ev' \<in> {''workflow_job'', ''check_run'', ''workflow_run''}
      \<and> head_sha (req_payload req') ev' = Inr key \<and> now' < now + ttl
    \<longrightarrow> receive_event c now Failed req =
          (Some DeliveryError, cache_set c now key obj,
           [Send (req_webhook_id req) (req_webhook_token req) (we_embed obj)
              (thread_param (req_thread_id req))])
        \<and> we_message obj = None
        \<and> cache_get (cache_set c now key obj) now' key = Some obj
        \<and> snd (snd (receive_event (cache_set c now key obj) now' d' req')) = []
        \<and> (\<exists>obj'. cache_get (fst (snd (receive_event (cache_set c now key obj) now' d' req')))
                      now' key = Some obj'
                \<and> we_message obj' = None))
   \<and> (req_event_header req = Some ''workflow_job''
      \<and> head_sha (req_payload req) ''workflow_job'' = Inr key
      \<and> cache_get c now key = Some obj \<and> we_message obj = Some m
      \<and> job_update (req_payload req) = Some (rid, e)
      \<and> req_event_header req' = Some ''workflow_job''
      \<and> head_sha (req_payload req') ''workflow_job'' = Inr key
      \<and> job_update (req_payload req') = Some (rid', e')
      \<and> cache_get c now' key \<noteq> None
    \<longrightarrow> (\<exists>obj1 obj2.
          receive_event c now Failed req =
            (Some DeliveryError, cache_store c key obj1, [Edit m (we_embed obj1)])
        \<and> we_message obj1 = Some m
        \<and> receive_event (cache_store c key obj1) now' d' req' =
            (if d' = Failed then Some DeliveryError else None,
             cache_store (cache_store c key obj1) key obj2, [Edit m (we_embed obj2)])
        \<and> we_message obj2 = Some m
        \<and> we_workflows obj2 = AList.update rid' e' (AList.update rid e (we_workflows obj))))"
proof (intro conjI impI)
  assume a: "req_event_header req = Some ev \<and> ev \<in> {''workflow_job'', ''check_run'', ''workflow_run''}
      \<and> head_sha (req_payload req) ev = Inr key \<and> cache_get c now key = None
      \<and> new_WorkflowEmbed ev (req_payload req) = Inr built
      \<and> (if ev = ''workflow_run'' then handle_workflow_run built (req_payload req) Failed
          else (None, built, [])) = (None, obj, acts)
      \<and> req_event_header req' = Some ev' \<and> ev' \<in> {''workflow_job'', ''check_run'', ''workflow_run''}
      \<and> head_sha (req_payload req') ev' = Inr key \<and> now' < now + ttl"
  then have h: "req_event_header req = Some ev" "ev \<in> {''workflow_job'', ''check_run'', ''workflow_run''}"
      "head_sha (req_payload req) ev = Inr key" "cache_get c now key = None"
      "new_WorkflowEmbed ev (req_payload req) = Inr built"
      "(if ev = ''workflow_run'' then handle_workflow_run built (req_payload req) Failed
          else (None, built, [])) = (None, obj, acts)"
    and h': "req_event_header req' = Some ev'" "ev' \<in> {''workflow_job'', ''check_run'', ''workflow_run''}"
      "head_sha (req_payload req') ev' = Inr key" "now' < now + ttl"
    by blast+
  show first: "receive_event c now Failed req =
          (Some DeliveryError, cache_set c now key obj,
           [Send (req_webhook_id req) (req_webhook_token req) (we_embed obj)
              (thread_param (req_thread_id req))])"
    using receive_event_absent[OF h] by simp
  have m0: "we_message built = None"
    using new_WorkflowEmbed_Inr[OF h(5)] by auto
  show unset: "we_message obj = None"
    using h(6) m0 handle_workflow_run_unpublished[OF m0, of "req_payload req" Failed None obj acts]
    by (auto split: if_splits)
  show live: "cache_get (cache_set c now key obj) now' key = Some obj"
    by (rule cache_get_cache_set_live[OF h'(4)])
  from receive_event_unpublished_live[OF h'(1,2,3) live unset, of d']
  show "snd (snd (receive_event (cache_set c now key obj) now' d' req')) = []"
    and "\<exists>obj'. cache_get (fst (snd (receive_event (cache_set c now key obj) now' d' req')))
                      now' key = Some obj' \<and> we_message obj' = None"
    by blast+
next
  assume a: "req_event_header req = Some ''workflow_job''
      \<and> head_sha (req_payload req) ''workflow_job'' = Inr key
      \<and> cache_get c now key = Some obj \<and> we_message obj = Some m
      \<and> job_update (req_payload req) = Some (rid, e)
      \<and> req_event_header req' = Some ''workflow_job''
      \<and> head_sha (req_payload req') ''workflow_job'' = Inr key
      \<and> job_update (req_payload req') = Some (rid', e')
      \<and> cache_get c now' key \<noteq> None"
  then have h: "req_event_header req = Some ''workflow_job''"
      "head_sha (req_payload req) ''workflow_job'' = Inr key"
      "cache_get c now key = Some obj" "we_message obj = Some m"
      "job_update (req_payload req) = Some (rid, e)"
    and h': "req_event_header req' = Some ''workflow_job''"
      "head_sha (req_payload req') ''workflow_job'' = Inr key"
      "job_update (req_payload req') = Some (rid', e')"
    and l: "cache_get c now' key \<noteq> None"
    by blast+
  from receive_event_job_published[OF h, of Failed] obtain obj1 where
    o1: "receive_event c now Failed req =
            (Some DeliveryError, cache_store c key obj1, [Edit m (we_embed obj1)])"
      "we_message obj1 = Some m" "we_workflows obj1 = AList.update rid e (we_workflows obj)"
    by auto
  from l obtain old where "cache_get c now' key = Some old" by auto
  then have live: "cache_get (cache_store c key obj1) now' key = Some obj1"
    by (rule cache_get_cache_store)
  from receive_event_job_published[OF h'(1,2) live o1(2) h'(3), of d'] obtain obj2 where
    o2: "receive_event (cache_store c key obj1) now' d' req' =
            (if d' = Failed then Some DeliveryError else None,
             cache_store (cache_store c key obj1) key obj2, [Edit m (we_embed obj2)])"
      "we_message obj2 = Some m" "we_workflows obj2 = AList.update rid' e' (we_workflows obj1)"
    by auto
  show "\<exists>obj1 obj2.
          receive_event c now Failed req =
            (Some DeliveryError, cache_store c key obj1, [Edit m (we_embed obj1)])
        \<and> we_message obj1 = Some m
        \<and> receive_event (cache_store c key obj1) now' d' req' =
            (if d' = Failed then Some DeliveryError else None,
             cache_store (cache_store c key obj1) key obj2, [Edit m (we_embed obj2)])
        \<and> we_message obj2 = Some m
        \<and> we_workflows obj2 = AList.update rid' e' (AList.update rid e (we_workflows obj))"
    using o1 o2 by (intro exI[of _ obj1] exI[of _ obj2]) simp
qed


theorem delivery_failures_witness:
  "receive_event [] 0 Failed
     (example_request ''workflow_job'' (job_payload (Some ''sha1'') None ''queued'' 1)) =
     (Some DeliveryError,
      [(''sha1'', 600, \<lparr>we_embed = example_embed, we_workflows = [], we_message = None\<rparr>)],
      [Send 1 ''token'' example_embed None])
   \<and> snd (snd (receive_event
       [(''sha1'', 600, \<lparr>we_embed = example_embed, we_workflows = [], we_message = None\<rparr>)]
       1 (Delivered 9)
       (example_request ''workflow_job'' (job_payload (Some ''sha1'') None ''in_progress'' 1)))) = []
   \<and> (\<exists>obj1 obj2.
         receive_event [(''sha1'', 600, published_record)] 1 Failed
           (example_request ''workflow_job'' (job_payload (Some ''sha1'') None ''in_progress'' 1)) =
           (Some DeliveryError, cache_store [(''sha1'', 600, published_record)] ''sha1'' obj1,
            [Edit 7 (we_embed obj1)])
       \<and> receive_event (cache_store [(''sha1'', 600, published_record)] ''sha1'' obj1) 2 (Delivered 0)
           (example_request ''workflow_job''
              (job_payload (Some ''sha1'') (Some ''failure'') ''completed'' 2)) =
           (None, cache_store (cache_store [(''sha1'', 600, published_record)] ''sha1'' obj1) ''sha1'' obj2,
            [Edit 7 (we_embed obj2)])
       \<and> we_workflows obj2 =
           [(1, \<lparr>job_color = WindowsLoading, job_name = ''build''\<rparr>),
            (2, \<lparr>job_color = LARGE_RED_CIRCLE, job_name = ''build''\<rparr>)])"
proof -
  let ?A = "example_request ''workflow_job'' (job_payload (Some ''sha1'') None ''queued'' 1)"
  let ?B = "example_request ''workflow_job'' (job_payload (Some ''sha1'') None ''in_progress'' 1)"
  let ?C = "example_request ''workflow_job'' (job_payload (Some ''sha1'') (Some ''failure'') ''completed'' 2)"
  let ?obj = "\<lparr>we_embed = example_embed, we_workflows = [], we_message = None\<rparr>"
  have sha: "head_sha (req_payload (example_request ''workflow_job'' (job_payload (Some ''sha1'') c s r)))
               ''workflow_job'' = Inr ''sha1''" for c s r
    by (simp add: example_request_def job_payload_def head_sha_def getitem_def)
  have hdr: "req_event_header (example_request ''workflow_job'' p) = Some ''workflow_job''" for p
    by (simp add: example_request_def)
  have new: "new_WorkflowEmbed ''workflow_job'' (req_payload ?A) = Inr ?obj"
    by (simp add: handler_defs example_defs)
  have set0: "cache_set [] 0 ''sha1'' ?obj = [(''sha1'', 600, ?obj)]"
    by (simp add: cache_set_def cache_expire_def ttl_def)
  have a: "req_event_header ?A = Some ''workflow_job''
      \<and> ''workflow_job'' \<in> {''workflow_job'', ''check_run'', ''workflow_run''}
      \<and> head_sha (req_payload ?A) ''workflow_job'' = Inr ''sha1'' \<and> cache_get [] 0 ''sha1'' = None
      \<and> new_WorkflowEmbed ''workflow_job'' (req_payload ?A) = Inr ?obj
      \<and> (if ''workflow_job'' = ''workflow_run'' then handle_workflow_run ?obj (req_payload ?A) Failed
          else (None, ?obj, [])) = (None, ?obj, [])
      \<and> req_event_header ?B = Some ''workflow_job''
      \<and> ''workflow_job'' \<in> {''workflow_job'', ''check_run'', ''workflow_run''}
      \<and> head_sha (req_payload ?B) ''workflow_job'' = Inr ''sha1'' \<and> (1::real) < 0 + ttl"
    using sha hdr new by (simp add: cache_get_def ttl_def)
  note pa = delivery_failures[where req="?A" and ev="''workflow_job''" and key="''sha1''" and c="[]"
      and now=0 and built="?obj" and obj="?obj" and acts="[]" and req'="?B" and ev'="''workflow_job''"
      and now'=1 and d'="Delivered 9", THEN conjunct1, THEN mp, OF a]
  have b: "req_event_header ?B = Some ''workflow_job''
      \<and> head_sha (req_payload ?B) ''workflow_job'' = Inr ''sha1''
      \<and> cache_get [(''sha1'', 600, published_record)] 1 ''sha1'' = Some published_record
      \<and> we_message published_record = Some 7
      \<and> job_update (req_payload ?B) = Some (1, \<lparr>job_color = WindowsLoading, job_name = ''build''\<rparr>)
      \<and> req_event_header ?C = Some ''workflow_job''
      \<and> head_sha (req_payload ?C) ''workflow_job'' = Inr ''sha1''
      \<and> job_update (req_payload ?C) = Some (2, \<lparr>job_color = LARGE_RED_CIRCLE, job_name = ''build''\<rparr>)
      \<and> cache_get [(''sha1'', 600, published_record)] 2 ''sha1'' \<noteq> None"
    using sha hdr
    by (simp add: cache_get_def published_record_def example_request_def job_update_job_payload)
  note pb = delivery_failures[where req="?B" and key="''sha1''" and c="[(''sha1'', 600, published_record)]"
      and now=1 and obj=published_record and m=7 and rid=1 and req'="?C" and rid'=2
      and now'=2 and d'="Delivered 0", THEN conjunct2, THEN mp, OF b]
  have w: "we_workflows published_record = []" by (simp add: published_record_def)
  have first: "receive_event [] 0 Failed ?A =
     (Some DeliveryError, [(''sha1'', 600, ?obj)], [Send 1 ''token'' example_embed None])
     \<and> snd (snd (receive_event [(''sha1'', 600, ?obj)] 1 (Delivered 9) ?B)) = []"
    using pa by (simp add: set0 example_request_def thread_param_def)
  have second: "\<exists>obj1 obj2.
         receive_event [(''sha1'', 600, published_record)] 1 Failed ?B =
           (Some DeliveryError, cache_store [(''sha1'', 600, published_record)] ''sha1'' obj1,
            [Edit 7 (we_embed obj1)])
       \<and> receive_event (cache_store [(''sha1'', 600, published_record)] ''sha1'' obj1) 2 (Delivered 0) ?C =
           (None, cache_store (cache_store [(''sha1'', 600, published_record)] ''sha1'' obj1) ''sha1'' obj2,
            [Edit 7 (we_embed obj2)])
       \<and> we_workflows obj2 =
           [(1, \<lparr>job_color = WindowsLoading, job_name = ''build''\<rparr>),
            (2, \<lparr>job_color = LARGE_RED_CIRCLE, job_name = ''build''\<rparr>)]"
    using pb by (auto simp: w)
  from first second show ?thesis by blast
qed

subsection \<open>A manually triggered run\<close>

lemma handle_workflow_run_manual:
  assumes "p_workflow_run p = Some r" and "wr_event r = Some ''workflow_dispatch''"
    and "repository_name p = Inr n" and "wr_triggering_actor r = Some a"
    and "actor_login a = Some l" and "actor_html_url a = Some u"
    and "we_message self = None"
  shows "handle_workflow_run self p d =
           (None,
            self\<lparr>we_embed := set_author
               ((we_embed self)\<lparr>embed_title := Some (''['' @ n @ ''] Manually Triggered Workflow'')\<rparr>)
               l (Some u) None\<rparr>,
            [])"
  using assms
  by (simp add: handle_workflow_run_def workflow_dispatch_branch_def getitem_def Let_def)

lemma fst_receive_events_Cons:
  "fst (receive_events c ((now, d, req) # rest)) =
     fst (receive_events (fst (snd (receive_event c now d req))) rest)"
  by (simp split: prod.splits)

lemma job_events_keep_title:
  assumes "map_of c key = Some (expires, obj)"
    and "\<forall>x \<in> set later. case x of (now', d', req') \<Rightarrow>
           req_event_header req' = Some ''workflow_job''
           \<and> head_sha (req_payload req') ''workflow_job'' = Inr key \<and> now' < expires"
  shows "\<exists>final. map_of (fst (receive_events c later)) key = Some (expires, final)
           \<and> embed_title (we_embed final) = embed_title (we_embed obj)
           \<and> embed_author (we_embed final) = embed_author (we_embed obj)"
  using assms
proof (induction later arbitrary: c obj)
  case Nil
  then show ?case by simp
next
  case (Cons x later)
  obtain now' d' req' where x: "x = (now', d', req')" by (cases x)
  from Cons.prems(2) x have h: "req_event_header req' = Some ''workflow_job''"
      "head_sha (req_payload req') ''workflow_job'' = Inr key" "now' < expires"
    by auto
  have live: "cache_get c now' key = Some obj"
    by (rule cache_get_live[OF Cons.prems(1) h(3)])
  obtain err obj' acts where hw: "handle_workflow_job obj (req_payload req') d' = (err, obj', acts)"
    by (cases "handle_workflow_job obj (req_payload req') d'")
  have re: "receive_event c now' d' req' = (err, cache_store c key obj', acts)"
    using receive_event_live[OF h(1) _ h(2) live, of d'] hw by simp
  have m: "map_of (cache_store c key obj') key = Some (expires, obj')"
    using Cons.prems(1) by (simp add: map_of_cache_store)
  have rest: "\<forall>x \<in> set later. case x of (now', d', req') \<Rightarrow>
           req_event_header req' = Some ''workflow_job''
           \<and> head_sha (req_payload req') ''workflow_job'' = Inr key \<and> now' < expires"
    using Cons.prems(2) by simp
  from Cons.IH[OF m rest] obtain final where
    f: "map_of (fst (receive_events (cache_store c key obj') later)) key = Some (expires, final)"
       "embed_title (we_embed final) = embed_title (we_embed obj')"
       "embed_author (we_embed final) = embed_author (we_embed obj')"
    by blast
  have "map_of (fst (receive_events c (x # later))) key = Some (expires, final)"
    using f(1) by (simp only: x fst_receive_events_Cons re fst_conv snd_conv)
  then show ?case
    using f(2,3) handle_workflow_job_frame[OF hw] by auto
qed

text \<open>
  C9. A \<^verbatim>\<open>workflow_run\<close> event triggered by \<^verbatim>\<open>workflow_dispatch\<close> that is the first event
  for its commit (no live entry in the store) leaves a record whose title is the
  manual-trigger variant and whose author is the triggering actor, with name and link and
  without avatar, whether or not the send succeeds. Any run of \<^verbatim>\<open>workflow_job\<close> events for
  the same commit that follows while the entry is live, whatever their payloads and
  whatever Discord answers, leaves the title and the author of the record as they were.
\<close>

theorem manual_trigger_title_kept:
  assumes "req_event_header req = Some ''workflow_run''"
    and "p_workflow_run (req_payload req) = Some r"
    and "wr_head_sha r = Some key"
    and "wr_event r = Some ''workflow_dispatch''"
    and "repository_name (req_payload req) = Inr n"
    and "repository_html_url (req_payload req) = Inr u"
    and "wr_triggering_actor r = Some a"
    and "actor_login a = Some l"
    and "actor_html_url a = Some au"
    and "cache_get c now key = None"
    and "\<forall>x \<in> set later. case x of (now', d', req') \<Rightarrow>
           req_event_header req' = Some ''workflow_job''
           \<and> head_sha (req_payload req') ''workflow_job'' = Inr key \<and> now' < now + ttl"
  shows "\<exists>first final.
           map_of (fst (snd (receive_event c now d req))) key = Some (now + ttl, first)
         \<and> embed_title (we_embed first) = Some (''['' @ n @ ''] Manually Triggered Workflow'')
         \<and> embed_author (we_embed first) =
               Some \<lparr>author_name = l, author_url = Some au, author_icon_url = None\<rparr>
         \<and> map_of (fst (receive_events (fst (snd (receive_event c now d req))) later)) key =
               Some (now + ttl, final)
         \<and> embed_title (we_embed final) = embed_title (we_embed first)
         \<and> embed_author (we_embed final) = embed_author (we_embed first)"
proof -
  define built where "built =
     \<lparr>we_embed = \<lparr>embed_color = og_blurple, embed_title = Some (''['' @ n @ ''] Workflows''),
                  embed_url = Some (u @ ''/commit/'' @ key), embed_description = None,
                  embed_author = None\<rparr>,
      we_workflows = [], we_message = None\<rparr>"
  define obj where "obj = built\<lparr>we_embed := set_author
               ((we_embed built)\<lparr>embed_title := Some (''['' @ n @ ''] Manually Triggered Workflow'')\<rparr>)
               l (Some au) None\<rparr>"
  have sha: "head_sha (req_payload req) ''workflow_run'' = Inr key"
    using assms(2,3) by (simp add: head_sha_def getitem_def)
  have new: "new_WorkflowEmbed ''workflow_run'' (req_payload req) = Inr built"
    using assms(5,6) sha
    by (simp add: new_WorkflowEmbed_def create_embed_def new_Embed_def built_def)
  have run: "(if ''workflow_run'' = ''workflow_run''
              then handle_workflow_run built (req_payload req) d else (None, built, []))
             = (None, obj, [])"
    using handle_workflow_run_manual[OF assms(2,4,5,7,8,9), of built d]
    by (simp add: built_def obj_def)
  have acc: "''workflow_run'' \<in> {''workflow_job'', ''check_run'', ''workflow_run''}" by simp
  note re = receive_event_absent[OF assms(1) acc sha assms(10) new run]
  obtain first where first: "map_of (fst (snd (receive_event c now d req))) key = Some (now + ttl, first)"
      "we_embed first = we_embed obj"
  proof (cases d)
    case (Delivered m)
    have "map_of (fst (snd (receive_event c now d req))) key = Some (now + ttl, obj\<lparr>we_message := Some m\<rparr>)"
      using re Delivered by (simp add: map_of_cache_store map_of_cache_set)
    then show ?thesis using that by simp
  next
    case Failed
    have "map_of (fst (snd (receive_event c now d req))) key = Some (now + ttl, obj)"
      using re Failed by (simp add: map_of_cache_set)
    then show ?thesis using that by simp
  qed
  from job_events_keep_title[OF first(1) assms(11)] obtain final where
    final: "map_of (fst (receive_events (fst (snd (receive_event c now d req))) later)) key =
               Some (now + ttl, final)"
      "embed_title (we_embed final) = embed_title (we_embed first)"
      "embed_author (we_embed final) = embed_author (we_embed first)"
    by blast
  have t: "embed_title (we_embed first) = Some (''['' @ n @ ''] Manually Triggered Workflow'')"
    and au: "embed_author (we_embed first) =
               Some \<lparr>author_name = l, author_url = Some au, author_icon_url = None\<rparr>"
    by (simp_all add: first(2) obj_def set_author_def)
  from first(1) t au final show ?thesis by blast
qed


theorem manual_trigger_title_kept_witness:
  "\<exists>first final.
     map_of (fst (snd (receive_event [] 0 (Delivered 7)
        (example_request ''workflow_run'' (run_payload ''workflow_dispatch''))))) ''sha1''
       = Some (600, first)
   \<and> embed_title (we_embed first) = Some ''[BGAW] Manually Triggered Workflow''
   \<and> embed_author (we_embed first) =
         Some \<lparr>author_name = ''LightSage'', author_url = Some ''https://github.com/LightSage'',
               author_icon_url = None\<rparr>
   \<and> map_of (fst (receive_events (fst (snd (receive_event [] 0 (Delivered 7)
        (example_request ''workflow_run'' (run_payload ''workflow_dispatch''))))) example_later)) ''sha1''
       = Some (600, final)
   \<and> embed_title (we_embed final) = Some ''[BGAW] Manually Triggered Workflow''
   \<and> embed_author (we_embed final) =
         Some \<lparr>author_name = ''LightSage'', author_url = Some ''https://github.com/LightSage'',
               author_icon_url = None\<rparr>"
proof -
  let ?req = "example_request ''workflow_run'' (run_payload ''workflow_dispatch'')"
  let ?r = "\<lparr>wr_head_sha = Some ''sha1'', wr_event = Some ''workflow_dispatch'',
             wr_triggering_actor = Some example_actor, wr_pull_requests = Some []\<rparr>"
  have h1: "req_event_header ?req = Some ''workflow_run''" by (simp add: example_request_def)
  have h2: "p_workflow_run (req_payload ?req) = Some ?r"
    by (simp add: example_request_def run_payload_def)
  have h3: "wr_head_sha ?r = Some ''sha1''" by simp
  have h4: "wr_event ?r = Some ''workflow_dispatch''" by simp
  have h5: "repository_name (req_payload ?req) = Inr ''BGAW''"
    by (simp add: example_request_def run_payload_def repository_name_def getitem_def
        example_repository_def)
  have h6: "repository_html_url (req_payload ?req) = Inr ''https://github.com/LightSage/BGAW''"
    by (simp add: example_request_def run_payload_def repository_html_url_def getitem_def
        example_repository_def)
  have h7: "wr_triggering_actor ?r = Some example_actor" by simp
  have h8: "actor_login example_actor = Some ''LightSage''" by (simp add: example_actor_def)
  have h9: "actor_html_url example_actor = Some ''https://github.com/LightSage''"
    by (simp add: example_actor_def)
  have h10: "cache_get [] 0 ''sha1'' = None" by (simp add: cache_get_def)
  have h11: "\<forall>x \<in> set example_later. case x of (now', d', req') \<Rightarrow>
           req_event_header req' = Some ''workflow_job''
           \<and> head_sha (req_payload req') ''workflow_job'' = Inr ''sha1'' \<and> now' < 0 + ttl"
    by (simp add: example_later_def example_request_def job_payload_def head_sha_def getitem_def
        ttl_def)
  have t: "0 + ttl = (600::real)" by (simp add: ttl_def)
  from manual_trigger_title_kept[OF h1 h2 h3 h4 h5 h6 h7 h8 h9 h10 h11, of "Delivered 7"]
  show ?thesis unfolding t by force
qed

subsection \<open>A run of job updates for one commit\<close>




end
